theory Spec2Isabelle
  imports Main
begin

section \<open>Session manager: the kill, poll, clear-metadata workflow\<close>

text \<open>
  The development embeds two classes of the session-manager extension:
  \<^item> \<open>HappyApiClient\<close>: \<open>listSessions\<close>, \<open>killSession\<close>, \<open>clearHappyMetadata\<close>,
    \<open>getSession\<close>, \<open>pollSession\<close>;
  \<^item> \<open>HappyCliExecutor\<close>: \<open>killSessionSilently\<close>, \<open>killSession\<close>,
    \<open>resumeSessionInTerminal\<close>.

  The code talks to an HTTP server, reads the clock and sleeps. All of that is the
  environment: a record of functions over a world of an arbitrary type \<open>'w\<close>. Every
  \<open>await\<close> of the source is a transition of the world; \<open>Date.now()\<close> reads the clock
  of the current world without changing it. The state threaded through the model holds
  the world and three logs: the HTTP exchanges (request and reply), the lines written
  with \<open>console.error\<close>, and the calls to the editor's window API.
\<close>

subsection \<open>Data\<close>

text \<open>
  The interface \<open>LocalSession\<close> of \<open>types.ts\<close>; \<open>T | null\<close> is \<open>T option\<close>.
  The field \<open>id\<close> is \<open>id_field\<close> here (\<open>id\<close> is the identity function of HOL).
  The numbers of the source (process ids, counters, times in milliseconds) are integers.
\<close>

record LocalSession =
  id_field :: string
  claudeSessionId :: string
  aiType :: string
  source :: string
  status :: string
  sessionStatus :: string
  projectPath :: "string option"
  jsonlPath :: "string option"
  cwd :: "string option"
  summary :: "string option"
  pid :: "int option"
  command :: "string option"
  happySessionId :: "string option"
  happySessionTag :: "string option"
  startedAt :: "int option"
  jsonlCreateTime :: "int option"
  jsonlUpdateTime :: "int option"
  revision :: int
  lastSeenAt :: int
  createdAt :: int
  updatedAt :: int

text \<open>A JavaScript \<open>Error\<close>; only its message is ever read.\<close>

datatype error = Error (message: string)

text \<open>The signal literals \<open>'term' | 'kill'\<close> of \<open>HappyApiClient.killSession\<close>.\<close>

datatype signal = Term | Kill

text \<open>\<open>options?: { signal?: 'term' | 'kill'; targetPid?: number }\<close>\<close>

datatype kill_options = KillOptions (signal: "signal option") (targetPid: "int option")

text \<open>\<open>options?: { limit?: number; claudeSessionId?: string }\<close>\<close>

datatype list_options = ListOptions (limit: "int option") (sessionFilter: "string option")

text \<open>\<open>options: { timeout?: number; interval?: number }\<close>\<close>

datatype poll_options = PollOptions (opt_timeout: "int option") (opt_interval: "int option")

text \<open>
  The three requests the workflow sends through the axios client:
  \<^item> \<open>GET /v1/local-sessions\<close> with \<open>{ params: options }\<close>;
  \<^item> \<open>POST /v1/local-sessions/:id/kill\<close> with the options as body;
  \<^item> \<open>POST /v1/local-sessions\<close> with body
    \<open>{ claudeSessionId, happySessionId, happySessionTag }\<close>.
  A request is kept as its endpoint and its arguments; the path of the kill endpoint is
  determined by the session id the constructor carries.
\<close>

datatype request =
    GET_local_sessions "list_options option"
  | POST_kill string "kill_options option"
  | POST_local_sessions string "string option" "string option"

text \<open>
  \<open>response.data\<close>: an \<open>ApiResponse\<close> with its optional \<open>sessions\<close> field, the
  \<open>{ ok, signal, pid }\<close> object of the kill endpoint, or anything else.
\<close>

datatype data =
    ApiResponse "LocalSession list option"
  | KillResult bool string int
  | OtherData

type_synonym reply = "error + data"
type_synonym exchange = "request \<times> reply"

text \<open>Calls to \<open>vscode.window\<close> and to the terminal it creates.\<close>

datatype ui_event =
    InformationMessage string
  | WarningMessage string
  | CreateTerminal string "string option"
  | SendText string
  | ShowTerminal

text \<open>
  The environment. \<open>send\<close> is the axios client (\<open>Inl\<close> is a rejected promise),
  \<open>date_now\<close> is \<open>Date.now()\<close> in milliseconds, \<open>set_timeout d\<close> is the world after
  \<open>await new Promise(resolve => setTimeout(resolve, d))\<close>; \<open>baseUrl\<close> is the client's
  field of that name.
\<close>

record 'w env =
  baseUrl :: string
  send :: "request \<Rightarrow> 'w \<Rightarrow> reply \<times> 'w"
  date_now :: "'w \<Rightarrow> int"
  set_timeout :: "int \<Rightarrow> 'w \<Rightarrow> 'w"

record 'w state =
  world :: 'w
  exchanges :: "exchange list"
  console :: "string list"
  ui :: "ui_event list"

subsection \<open>Primitives\<close>

definition http :: "'w env \<Rightarrow> request \<Rightarrow> 'w state \<Rightarrow> reply \<times> 'w state" where
  "http env req st =
     (case send env req (world st) of
        (rep, w') \<Rightarrow> (rep, st\<lparr>world := w', exchanges := exchanges st @ [(req, rep)]\<rparr>))"

definition console_error :: "string \<Rightarrow> string \<Rightarrow> 'w state \<Rightarrow> 'w state" where
  "console_error label msg st = st\<lparr>console := console st @ [label @ '' '' @ msg]\<rparr>"

definition window :: "ui_event \<Rightarrow> 'w state \<Rightarrow> 'w state" where
  "window ev st = st\<lparr>ui := ui st @ [ev]\<rparr>"

definition sleep :: "'w env \<Rightarrow> int \<Rightarrow> 'w state \<Rightarrow> 'w state" where
  "sleep env d st = st\<lparr>world := set_timeout env d (world st)\<rparr>"

definition now :: "'w env \<Rightarrow> 'w state \<Rightarrow> int" where
  "now env st = date_now env (world st)"

text \<open>JavaScript truthiness of \<open>number | null\<close> and of \<open>string | null\<close>.\<close>

fun truthy_number :: "int option \<Rightarrow> bool" where
  "truthy_number None = False"
| "truthy_number (Some n) = (n \<noteq> 0)"

fun truthy_string :: "string option \<Rightarrow> bool" where
  "truthy_string None = False"
| "truthy_string (Some s) = (s \<noteq> [])"

text \<open>\<open>x || d\<close> on an optional number.\<close>

fun or_default :: "int option \<Rightarrow> int \<Rightarrow> int" where
  "or_default None d = d"
| "or_default (Some n) d = (if n = 0 then d else n)"

text \<open>Decimal rendering of an integer inside a template string.\<close>

fun string_of_nat :: "nat \<Rightarrow> string" where
  "string_of_nat n =
     (if n < 10 then [''0123456789'' ! n]
      else string_of_nat (n div 10) @ [''0123456789'' ! (n mod 10)])"

declare string_of_nat.simps [simp del]

definition string_of_number :: "int \<Rightarrow> string" where
  "string_of_number i =
     (if i < 0 then ''-'' @ string_of_nat (nat (- i)) else string_of_nat (nat i))"

subsection \<open>HappyApiClient\<close>

text \<open>\<open>response.data.sessions || []\<close>\<close>

fun sessions_or_empty :: "data \<Rightarrow> LocalSession list" where
  "sessions_or_empty (ApiResponse (Some xs)) = xs"
| "sessions_or_empty _ = []"

definition listSessions ::
  "'w env \<Rightarrow> list_options option \<Rightarrow> 'w state \<Rightarrow> (error + LocalSession list) \<times> 'w state" where
  "listSessions env options st =
     (case http env (GET_local_sessions options) st of
        (Inr d, st1) \<Rightarrow> (Inr (sessions_or_empty d), st1)
      | (Inl e, st1) \<Rightarrow>
          (Inl (Error (''Cannot connect to Happy server at '' @ baseUrl env)),
           console_error ''Failed to fetch sessions:'' (message e) st1))"

definition apiClient_killSession ::
  "'w env \<Rightarrow> string \<Rightarrow> kill_options option \<Rightarrow> 'w state \<Rightarrow> (error + data) \<times> 'w state" where
  "apiClient_killSession env sid options st =
     (case http env (POST_kill sid options) st of
        (Inr d, st1) \<Rightarrow> (Inr d, st1)
      | (Inl e, st1) \<Rightarrow>
          (Inl (Error (''Cannot kill session '' @ sid)),
           console_error ''Failed to kill session:'' (message e) st1))"

definition clearHappyMetadata ::
  "'w env \<Rightarrow> string \<Rightarrow> 'w state \<Rightarrow> (error + unit) \<times> 'w state" where
  "clearHappyMetadata env sid st =
     (case http env (POST_local_sessions sid None None) st of
        (Inr d, st1) \<Rightarrow> (Inr (), st1)
      | (Inl e, st1) \<Rightarrow>
          (Inl (Error (''Cannot detach session '' @ sid @ '' from Happy'')),
           console_error ''Failed to clear Happy metadata:'' (message e) st1))"

definition getSession ::
  "'w env \<Rightarrow> string \<Rightarrow> 'w state \<Rightarrow> (error + LocalSession option) \<times> 'w state" where
  "getSession env sid st =
     (case listSessions env (Some (ListOptions (Some 1) (Some sid))) st of
        (Inr sessions, st1) \<Rightarrow>
          (Inr (case sessions of [] \<Rightarrow> None | s # _ \<Rightarrow> Some s), st1)
      | (Inl e, st1) \<Rightarrow>
          (Inl (Error (''Cannot fetch session '' @ sid)),
           console_error ''Failed to fetch session:'' (message e) st1))"

text \<open>
  The \<open>while\<close> loop of \<open>pollSession\<close>. Nothing in the code bounds the number of
  iterations when the clock does not advance, so the loop is a partial function:
  \<open>None\<close> is a run that never returns.
\<close>

partial_function (option) pollLoop ::
  "'w env \<Rightarrow> string \<Rightarrow> (LocalSession \<Rightarrow> bool) \<Rightarrow> int \<Rightarrow> int \<Rightarrow> int \<Rightarrow> 'w state
     \<Rightarrow> ((error + LocalSession) \<times> 'w state) option" where
  "pollLoop env sid predicate timeout interval startTime st =
     (if now env st - startTime < timeout then
        (case getSession env sid st of
           (Inl e, st1) \<Rightarrow> Some (Inl e, st1)
         | (Inr None, st1) \<Rightarrow> Some (Inl (Error (''Session '' @ sid @ '' not found'')), st1)
         | (Inr (Some session), st1) \<Rightarrow>
             if predicate session then Some (Inr session, st1)
             else pollLoop env sid predicate timeout interval startTime (sleep env interval st1))
      else Some (Inl (Error (''Polling timeout after '' @ string_of_number timeout @ ''ms'')), st))"

declare pollLoop.simps [code]

definition pollSession ::
  "'w env \<Rightarrow> string \<Rightarrow> (LocalSession \<Rightarrow> bool) \<Rightarrow> poll_options \<Rightarrow> 'w state
     \<Rightarrow> ((error + LocalSession) \<times> 'w state) option" where
  "pollSession env sid predicate options st =
     pollLoop env sid predicate
       (or_default (opt_timeout options) 10000) (or_default (opt_interval options) 500)
       (now env st) st"

subsection \<open>HappyCliExecutor\<close>

text \<open>\<open>(s) => s.pid === null || s.status === 'terminated'\<close>\<close>

definition pid_cleared :: "LocalSession \<Rightarrow> bool" where
  "pid_cleared s = (pid s = None \<or> status s = ''terminated'')"

definition killSessionSilently ::
  "'w env \<Rightarrow> LocalSession \<Rightarrow> 'w state \<Rightarrow> ((error + unit) \<times> 'w state) option" where
  "killSessionSilently env session st =
     (let targetPid = pid session in
      if \<not> truthy_number targetPid then Some (Inl (Error ''Session has no PID to kill''), st)
      else
        case apiClient_killSession env (claudeSessionId session)
               (Some (KillOptions (Some Term) targetPid)) st of
          (Inl e, st1) \<Rightarrow> Some (Inl e, st1)
        | (Inr _, st1) \<Rightarrow>
            (case pollSession env (claudeSessionId session) pid_cleared
                    (PollOptions (Some 10000) (Some 500)) st1 of
               None \<Rightarrow> None
             | Some (Inl e, st2) \<Rightarrow> Some (Inl e, st2)
             | Some (Inr _, st2) \<Rightarrow>
                 Some (clearHappyMetadata env (claudeSessionId session) st2)))"

definition killSession ::
  "'w env \<Rightarrow> LocalSession \<Rightarrow> 'w state \<Rightarrow> ((error + unit) \<times> 'w state) option" where
  "killSession env session st =
     (if \<not> truthy_number (pid session) then Some (Inl (Error ''Session has no PID''), st)
      else
        let targetPid = pid session;
            isHappySession = truthy_string (happySessionId session)
        in
        case apiClient_killSession env (claudeSessionId session)
               (Some (KillOptions (Some Term) targetPid)) st of
          (Inl e, st1) \<Rightarrow> Some (Inl e, st1)
        | (Inr _, st1) \<Rightarrow>
            (case pollSession env (claudeSessionId session) pid_cleared
                    (PollOptions (Some 10000) (Some 500)) st1 of
               None \<Rightarrow> None
             | Some (Inl e, st2) \<Rightarrow> Some (Inl e, st2)
             | Some (Inr _, st2) \<Rightarrow>
                 if isHappySession
                 then Some (clearHappyMetadata env (claudeSessionId session) st2)
                 else Some (Inr (), st2)))"

text \<open>
  \<open>resumeSessionInTerminal\<close>. The \<open>try\<close> block around \<open>killSessionSilently\<close> has a
  \<open>catch\<close> that shows a warning and falls through, so the function itself never throws:
  its result is the final state, or \<open>None\<close> when the poll loop never returns.
\<close>

definition resumeSessionInTerminal ::
  "'w env \<Rightarrow> LocalSession \<Rightarrow> 'w state \<Rightarrow> 'w state option" where
  "resumeSessionInTerminal env session st =
     (let sessionIdShort = take 8 (claudeSessionId session);
          isHappySession = truthy_string (happySessionId session);
          isActive = (status session = ''active'' \<or> status session = ''happy-active'');
          launch = (\<lambda>s.
            window (InformationMessage
                      (''Resuming session '' @ sessionIdShort @ '' in terminal''))
              (window ShowTerminal
                (window (SendText (''claude --resume '' @ claudeSessionId session))
                  (window (CreateTerminal (''Claude '' @ sessionIdShort)
                             (if truthy_string (cwd session) then cwd session else None))
                     s))))
      in
      if isHappySession \<and> isActive \<and> truthy_number (pid session) then
        case killSessionSilently env session
               (window (InformationMessage
                  (''Moving session '' @ sessionIdShort @ '' from phone to VS Code...'')) st) of
          None \<Rightarrow> None
        | Some (Inr _, st1) \<Rightarrow>
            Some (launch (window (InformationMessage
              (''Session '' @ sessionIdShort @ '' terminated. Ready to resume locally.'')) st1))
        | Some (Inl e, st1) \<Rightarrow>
            Some (launch (window (WarningMessage
              (''Failed to kill active session: '' @ message e
                 @ ''. Attempting to resume anyway.'')) st1))
      else Some (launch st))"

subsection \<open>Vocabulary for traces\<close>

text \<open>The three requests of the workflow, as the executor builds them.\<close>

definition terminate_request :: "string \<Rightarrow> int option \<Rightarrow> request" where
  "terminate_request sid p = POST_kill sid (Some (KillOptions (Some Term) p))"

definition poll_request :: "string \<Rightarrow> request" where
  "poll_request sid = GET_local_sessions (Some (ListOptions (Some 1) (Some sid)))"

definition clear_request :: "string \<Rightarrow> request" where
  "clear_request sid = POST_local_sessions sid None None"

text \<open>The session record a reply shows to \<open>getSession\<close>: the first of the list, if any.\<close>

fun observed :: "reply \<Rightarrow> LocalSession option" where
  "observed (Inl e) = None"
| "observed (Inr d) = (case sessions_or_empty d of [] \<Rightarrow> None | s # _ \<Rightarrow> Some s)"

text \<open>
  A poll is pending when it shows a record that does not satisfy the exit predicate, and
  done when it shows one that does. A poll that is neither has failed: the request was
  rejected or the record is missing.
\<close>

definition pending :: "(LocalSession \<Rightarrow> bool) \<Rightarrow> reply \<Rightarrow> bool" where
  "pending predicate rep = (case observed rep of None \<Rightarrow> False | Some s \<Rightarrow> \<not> predicate s)"

definition done_poll :: "(LocalSession \<Rightarrow> bool) \<Rightarrow> reply \<Rightarrow> bool" where
  "done_poll predicate rep = (case observed rep of None \<Rightarrow> False | Some s \<Rightarrow> predicate s)"

text \<open>
  The admissible traces of one reconciliation, read from left to right:
  nothing at all; or the terminate request, and if it was accepted a non-empty run of
  polls, all pending except possibly the last; a last poll that is done may be followed
  by one clear request; a rejected terminate request, a failed poll and the clear
  request are each the end of the trace.
\<close>

fun clear_phase :: "string \<Rightarrow> exchange list \<Rightarrow> bool" where
  "clear_phase sid [] = True"
| "clear_phase sid [(req, rep)] = (req = clear_request sid)"
| "clear_phase sid (x # y # rest) = False"

fun poll_phase :: "string \<Rightarrow> exchange list \<Rightarrow> bool" where
  "poll_phase sid [] = True"
| "poll_phase sid ((req, rep) # rest) =
     (req = poll_request sid \<and>
      (if pending pid_cleared rep then poll_phase sid rest
       else if done_poll pid_cleared rep then clear_phase sid rest
       else rest = []))"

fun strict_sequence :: "string \<Rightarrow> int option \<Rightarrow> exchange list \<Rightarrow> bool" where
  "strict_sequence sid p [] = True"
| "strict_sequence sid p ((req, rep) # rest) =
     (req = terminate_request sid p \<and>
      (case rep of Inl e \<Rightarrow> rest = [] | Inr d \<Rightarrow> rest \<noteq> [] \<and> poll_phase sid rest))"

text \<open>
  What \<open>pollSession\<close> returns, read from the end of its trace: \<open>fin\<close> is empty when
  the budget ran out, and otherwise holds the one poll that ended the loop.
\<close>

definition poll_outcome :: "string \<Rightarrow> int \<Rightarrow> exchange list \<Rightarrow> error + LocalSession" where
  "poll_outcome sid timeout fin =
     (case fin of
        [] \<Rightarrow> Inl (Error (''Polling timeout after '' @ string_of_number timeout @ ''ms''))
      | (req, rep) # rest \<Rightarrow>
          (case rep of
             Inl e \<Rightarrow> Inl (Error (''Cannot fetch session '' @ sid))
           | Inr d \<Rightarrow>
               (case observed rep of
                  None \<Rightarrow> Inl (Error (''Session '' @ sid @ '' not found''))
                | Some s \<Rightarrow> Inr s)))"

text \<open>
  One run of the poll loop from state \<open>st\<close> to the result \<open>y\<close>: the trace grows by
  pending polls \<open>ps\<close> and the final part \<open>fin\<close>, the window log is untouched, and the
  trace is not empty when the loop body was entered.
\<close>

definition poll_run ::
  "string \<Rightarrow> (LocalSession \<Rightarrow> bool) \<Rightarrow> int \<Rightarrow> bool \<Rightarrow> 'w state
     \<Rightarrow> (error + LocalSession) \<times> 'w state \<Rightarrow> bool" where
  "poll_run sid predicate timeout entered st y =
     (\<exists>ps fin. exchanges (snd y) = exchanges st @ ps @ fin \<and> ui (snd y) = ui st \<and>
        (entered \<longrightarrow> ps @ fin \<noteq> []) \<and>
        (\<forall>x\<in>set ps. fst x = poll_request sid \<and> pending predicate (snd x)) \<and>
        (fin = [] \<or> (\<exists>rep. fin = [(poll_request sid, rep)] \<and> \<not> pending predicate rep)) \<and>
        fst y = poll_outcome sid timeout fin)"

text \<open>
  What \<open>killSessionSilently\<close> and \<open>killSession\<close> return, read from the last exchange
  of their trace; \<open>no_pid\<close> is the message of the guard, for the empty trace. (An
  accepted terminate request is never the last exchange of an admissible trace.)
\<close>

fun step_outcome :: "string \<Rightarrow> exchange \<Rightarrow> error + unit" where
  "step_outcome sid (POST_kill i options, Inl e) = Inl (Error (''Cannot kill session '' @ sid))"
| "step_outcome sid (POST_kill i options, Inr d) = Inr ()"
| "step_outcome sid (GET_local_sessions options, Inl e) =
     Inl (Error (''Cannot fetch session '' @ sid))"
| "step_outcome sid (GET_local_sessions options, Inr d) =
     (case observed (Inr d) of
        None \<Rightarrow> Inl (Error (''Session '' @ sid @ '' not found''))
      | Some s \<Rightarrow>
          if pid_cleared s then Inr () else Inl (Error ''Polling timeout after 10000ms''))"
| "step_outcome sid (POST_local_sessions i h g, Inl e) =
     Inl (Error (''Cannot detach session '' @ sid @ '' from Happy''))"
| "step_outcome sid (POST_local_sessions i h g, Inr d) = Inr ()"

definition outcome :: "string \<Rightarrow> string \<Rightarrow> exchange list \<Rightarrow> error + unit" where
  "outcome no_pid sid tr =
     (if tr = [] then Inl (Error no_pid) else step_outcome sid (last tr))"

text \<open>
  One run of the reconciliation from state \<open>st\<close> to the result \<open>y\<close>: the trace grows
  by an admissible \<open>tr\<close>, which is empty exactly when the guard on the process id
  fired, the window log is untouched, and the result is the outcome of \<open>tr\<close>.
\<close>

definition reconcile_run ::
  "string \<Rightarrow> LocalSession \<Rightarrow> 'w state \<Rightarrow> (error + unit) \<times> 'w state \<Rightarrow> bool" where
  "reconcile_run no_pid session st y =
     (\<exists>tr. exchanges (snd y) = exchanges st @ tr \<and> ui (snd y) = ui st \<and>
        strict_sequence (claudeSessionId session) (pid session) tr \<and>
        (tr = [] \<longleftrightarrow> \<not> truthy_number (pid session)) \<and>
        fst y = outcome no_pid (claudeSessionId session) tr)"

text \<open>
  The clock never runs backwards over a request, and a sleep of \<open>d\<close> milliseconds
  takes at least \<open>d\<close>.
\<close>

definition clock_advances :: "'w env \<Rightarrow> bool" where
  "clock_advances env =
     ((\<forall>req w. date_now env w \<le> date_now env (snd (send env req w))) \<and>
      (\<forall>d w. date_now env w + d \<le> date_now env (set_timeout env d w)))"

text \<open>
  Requests take no time and a sleep of \<open>d\<close> milliseconds takes exactly \<open>d\<close>.
\<close>

definition exact_clock :: "'w env \<Rightarrow> bool" where
  "exact_clock env =
     ((\<forall>req w. date_now env (snd (send env req w)) = date_now env w) \<and>
      (\<forall>d w. date_now env (set_timeout env d w) = date_now env w + d))"

text \<open>
  The registry never shows the process gone: every poll shows a record with a process
  id and a status other than terminated.
\<close>

definition never_clears :: "'w env \<Rightarrow> string \<Rightarrow> bool" where
  "never_clears env sid = (\<forall>w. pending pid_cleared (fst (send env (poll_request sid) w)))"

text \<open>A run of polls for one session, with their replies.\<close>

definition polls :: "string \<Rightarrow> reply list \<Rightarrow> exchange list" where
  "polls sid reps = map (\<lambda>rep. (poll_request sid, rep)) reps"

text \<open>The state after a run that added the exchanges \<open>tr\<close> and left the world \<open>w\<close>.\<close>

definition after :: "'w state \<Rightarrow> 'w \<Rightarrow> exchange list \<Rightarrow> 'w state" where
  "after st w tr = st\<lparr>world := w, exchanges := exchanges st @ tr\<rparr>"

text \<open>The registry accepts a request whenever it is made.\<close>

definition accepts :: "'w env \<Rightarrow> request \<Rightarrow> bool" where
  "accepts env req = (\<forall>w. \<not> isl (fst (send env req w)))"

text \<open>Every poll shows the process gone.\<close>

definition always_cleared :: "'w env \<Rightarrow> string \<Rightarrow> bool" where
  "always_cleared env sid = (\<forall>w. done_poll pid_cleared (fst (send env (poll_request sid) w)))"

text \<open>The requests of a run that succeeds after one poll, with or without the clear.\<close>

definition one_poll_requests :: "LocalSession \<Rightarrow> bool \<Rightarrow> request list" where
  "one_poll_requests session clears =
     [terminate_request (claudeSessionId session) (pid session),
      poll_request (claudeSessionId session)]
     @ (if clears then [clear_request (claudeSessionId session)] else [])"

text \<open>Requests to the kill endpoint.\<close>

fun is_kill_request :: "request \<Rightarrow> bool" where
  "is_kill_request (POST_kill sid options) = True"
| "is_kill_request (GET_local_sessions options) = False"
| "is_kill_request (POST_local_sessions sid h g) = False"

text \<open>The test that guards the reconciliation in \<open>resumeSessionInTerminal\<close>.\<close>

definition reconciles_first :: "LocalSession \<Rightarrow> bool" where
  "reconciles_first session =
     (truthy_string (happySessionId session) \<and>
      (status session = ''active'' \<or> status session = ''happy-active'') \<and>
      truthy_number (pid session))"

text \<open>The window calls that create the terminal and send the resume command.\<close>

definition launch_events :: "LocalSession \<Rightarrow> ui_event list" where
  "launch_events session =
     [CreateTerminal (''Claude '' @ take 8 (claudeSessionId session))
        (if truthy_string (cwd session) then cwd session else None),
      SendText (''claude --resume '' @ claudeSessionId session),
      ShowTerminal,
      InformationMessage
        (''Resuming session '' @ take 8 (claudeSessionId session) @ '' in terminal'')]"

definition moving_message :: "LocalSession \<Rightarrow> ui_event" where
  "moving_message session =
     InformationMessage
       (''Moving session '' @ take 8 (claudeSessionId session) @ '' from phone to VS Code...'')"

definition terminated_message :: "LocalSession \<Rightarrow> ui_event" where
  "terminated_message session =
     InformationMessage
       (''Session '' @ take 8 (claudeSessionId session)
          @ '' terminated. Ready to resume locally.'')"

definition warning_message :: "error \<Rightarrow> ui_event" where
  "warning_message e =
     WarningMessage
       (''Failed to kill active session: '' @ message e @ ''. Attempting to resume anyway.'')"

text \<open>The messages shown before the launch, for each way the first part can go.\<close>

fun notices :: "LocalSession \<Rightarrow> (error + unit) option \<Rightarrow> ui_event list" where
  "notices session None = []"
| "notices session (Some (Inr u)) = [moving_message session, terminated_message session]"
| "notices session (Some (Inl e)) = [moving_message session, warning_message e]"

subsection \<open>Test registries\<close>

definition example_session :: LocalSession where
  "example_session =
     \<lparr>id_field = ''row-1'', claudeSessionId = ''s1-abcdefgh'', aiType = ''claude'',
      source = ''happy'', status = ''happy-active'', sessionStatus = ''idle'',
      projectPath = None, jsonlPath = None, cwd = Some ''/home/user'', summary = None,
      pid = Some 4242, command = None, happySessionId = Some ''h1'',
      happySessionTag = Some ''tag'', startedAt = None, jsonlCreateTime = None,
      jsonlUpdateTime = None, revision = 1, lastSeenAt = 0, createdAt = 0, updatedAt = 0\<rparr>"

text \<open>Replies for scripts.\<close>

definition accepted :: reply where
  "accepted = Inr (KillResult True ''term'' 4242)"

definition rejected :: reply where
  "rejected = Inl (Error ''Request failed with status code 500'')"

definition shows_session :: "LocalSession \<Rightarrow> reply" where
  "shows_session s = Inr (ApiResponse (Some [s]))"

definition shows_nothing :: reply where
  "shows_nothing = Inr (ApiResponse (Some []))"

definition cleared_session :: LocalSession where
  "cleared_session = example_session\<lparr>status := ''terminated'', pid := None\<rparr>"

text \<open>
  The record of a session that is fully reconciled: process terminated, process id and
  link cleared.
\<close>

definition reconciled_session :: LocalSession where
  "reconciled_session =
     example_session\<lparr>status := ''terminated'', pid := None, happySessionId := None,
       happySessionTag := None\<rparr>"

definition start :: "'w \<Rightarrow> 'w state" where
  "start w = \<lparr>world = w, exchanges = [], console = [], ui = []\<rparr>"

text \<open>
  A registry that accepts every request and always shows the same record. Its world is
  the clock: requests take no time and a sleep takes exactly the time asked for.
\<close>

definition constant_registry :: "LocalSession \<Rightarrow> int env" where
  "constant_registry s =
     \<lparr>baseUrl = ''http://127.0.0.1:3005'',
      send = (\<lambda>req t. (case req of
                 GET_local_sessions options \<Rightarrow> Inr (ApiResponse (Some [s]))
               | POST_kill sid options \<Rightarrow> Inr (KillResult True ''term'' 4242)
               | POST_local_sessions sid h g \<Rightarrow> Inr OtherData, t)),
      date_now = (\<lambda>t. t),
      set_timeout = (\<lambda>d t. t + d)\<rparr>"

text \<open>
  A registry that answers from a script, whatever the request; when the script is
  exhausted every request is rejected. Its world is the clock and the rest of the
  script; every request takes one millisecond.
\<close>

definition scripted_registry :: "(int \<times> reply list) env" where
  "scripted_registry =
     \<lparr>baseUrl = ''http://127.0.0.1:3005'',
      send = (\<lambda>req (t, script). case script of
                 [] \<Rightarrow> (Inl (Error ''socket hang up''), (t + 1, []))
               | rep # rest \<Rightarrow> (rep, (t + 1, rest))),
      date_now = (\<lambda>(t, script). t),
      set_timeout = (\<lambda>d (t, script). (t + d, script))\<rparr>"

text \<open>
  A script: the terminate request is accepted, the first poll shows the process still
  there, the second shows it gone, the clear request is accepted.
\<close>

definition script1 :: "reply list" where
 "script1 = [accepted, shows_session example_session, shows_session cleared_session, accepted]"

text \<open>
  A script: the terminate request is accepted, the first poll shows the process still
  there, the second poll shows no record at all; a further request would be accepted.
\<close>

definition script2 :: "reply list" where
  "script2 = [accepted, shows_session example_session, shows_nothing, accepted]"

text \<open>
  A script: the terminate request is accepted, the first poll shows the process gone,
  the clear request is rejected.
\<close>

definition script3 :: "reply list" where
  "script3 = [accepted, shows_session cleared_session, rejected]"

text \<open>A script: the first request is rejected.\<close>

definition script4 :: "reply list" where
  "script4 = [rejected]"

section \<open>Properties\<close>

subsection \<open>What each call does to the logs\<close>

lemma console_error_logs [simp]:
  "exchanges (console_error l m st) = exchanges st" "ui (console_error l m st) = ui st"
  "world (console_error l m st) = world st"
  by (simp_all add: console_error_def)

lemma sleep_logs [simp]:
  "exchanges (sleep env d st) = exchanges st" "ui (sleep env d st) = ui st"
  "world (sleep env d st) = set_timeout env d (world st)"
  by (simp_all add: sleep_def)

lemma window_logs [simp]:
  "exchanges (window ev st) = exchanges st" "ui (window ev st) = ui st @ [ev]"
  "world (window ev st) = world st"
  by (simp_all add: window_def)

lemma getSession_post:
  assumes "getSession env sid st = (r, st1)"
  shows "\<exists>rep. exchanges st1 = exchanges st @ [(poll_request sid, rep)] \<and> ui st1 = ui st \<and>
           world st1 = snd (send env (poll_request sid) (world st)) \<and>
           rep = fst (send env (poll_request sid) (world st)) \<and>
           r = (case rep of Inl e \<Rightarrow> Inl (Error (''Cannot fetch session '' @ sid))
                          | Inr d \<Rightarrow> Inr (observed rep))"
  using assms
  by (auto simp: getSession_def listSessions_def poll_request_def http_def
        split: prod.splits sum.splits)

lemma apiClient_killSession_post:
  assumes "apiClient_killSession env sid options st = (r, st1)"
  shows "\<exists>rep. exchanges st1 = exchanges st @ [(POST_kill sid options, rep)] \<and> ui st1 = ui st \<and>
           world st1 = snd (send env (POST_kill sid options) (world st)) \<and>
           rep = fst (send env (POST_kill sid options) (world st)) \<and>
           r = (case rep of Inl e \<Rightarrow> Inl (Error (''Cannot kill session '' @ sid))
                          | Inr d \<Rightarrow> Inr d)"
  using assms
  by (auto simp: apiClient_killSession_def http_def split: prod.splits sum.splits)

lemma clearHappyMetadata_post:
  assumes "clearHappyMetadata env sid st = (r, st1)"
  shows "\<exists>rep. exchanges st1 = exchanges st @ [(clear_request sid, rep)] \<and> ui st1 = ui st \<and>
           world st1 = snd (send env (clear_request sid) (world st)) \<and>
           rep = fst (send env (clear_request sid) (world st)) \<and>
           r = (case rep of Inl e \<Rightarrow> Inl (Error (''Cannot detach session '' @ sid @ '' from Happy''))
                          | Inr d \<Rightarrow> Inr ())"
  using assms
  by (auto simp: clearHappyMetadata_def clear_request_def http_def split: prod.splits sum.splits)


lemma pollLoop_run:
  assumes "pollLoop env sid predicate timeout interval startTime st = Some y"
  shows "poll_run sid predicate timeout (now env st - startTime < timeout) st y"
proof (rule pollLoop.raw_induct
    [where P = "\<lambda>env sid predicate timeout interval startTime st y.
                  poll_run sid predicate timeout (now env st - startTime < timeout) st y",
     OF _ assms])
  fix loop :: "'w env \<Rightarrow> string \<Rightarrow> (LocalSession \<Rightarrow> bool) \<Rightarrow> int \<Rightarrow> int \<Rightarrow> int \<Rightarrow> 'w state
                 \<Rightarrow> ((error + LocalSession) \<times> 'w state) option"
    and env sid predicate timeout interval startTime st y
  assume IH: "\<And>env sid predicate timeout interval startTime st y.
                loop env sid predicate timeout interval startTime st = Some y \<Longrightarrow>
                poll_run sid predicate timeout (now env st - startTime < timeout) st y"
    and step: "(if now env st - startTime < timeout then
        (case getSession env sid st of
           (Inl e, st1) \<Rightarrow> Some (Inl e, st1)
         | (Inr None, st1) \<Rightarrow> Some (Inl (Error (''Session '' @ sid @ '' not found'')), st1)
         | (Inr (Some session), st1) \<Rightarrow>
             if predicate session then Some (Inr session, st1)
             else loop env sid predicate timeout interval startTime (sleep env interval st1))
      else Some (Inl (Error (''Polling timeout after '' @ string_of_number timeout @ ''ms'')), st))
      = Some y"
  show "poll_run sid predicate timeout (now env st - startTime < timeout) st y"
  proof (cases "now env st - startTime < timeout")
    case False
    with step have "y = (Inl (Error (''Polling timeout after '' @ string_of_number timeout @ ''ms'')), st)"
      by simp
    with False show ?thesis
      by (simp add: poll_run_def poll_outcome_def)
  next
    case True
    obtain r st1 where g: "getSession env sid st = (r, st1)"
      by (cases "getSession env sid st")
    from getSession_post [OF g] obtain rep where
      ex: "exchanges st1 = exchanges st @ [(poll_request sid, rep)]" and u: "ui st1 = ui st"
      and r: "r = (case rep of Inl e \<Rightarrow> Inl (Error (''Cannot fetch session '' @ sid))
                          | Inr d \<Rightarrow> Inr (observed rep))"
      by blast
    show ?thesis
    proof (cases "pending predicate rep")
      case False
      then have "y = (poll_outcome sid timeout [(poll_request sid, rep)], st1)"
        using step True g r
        by (auto simp: poll_outcome_def pending_def split: sum.splits option.splits if_splits)
      with False ex u show ?thesis
        unfolding poll_run_def
        by (intro exI [of _ "[]"] exI [of _ "[(poll_request sid, rep)]"]) simp
    next
      case pend: True
      then have "loop env sid predicate timeout interval startTime (sleep env interval st1) = Some y"
        using step True g r
        by (auto simp: pending_def split: sum.splits option.splits if_splits)
      from IH [OF this] obtain ps fin where
        h: "exchanges (snd y) = exchanges (sleep env interval st1) @ ps @ fin"
           "ui (snd y) = ui (sleep env interval st1)"
           "\<forall>x\<in>set ps. fst x = poll_request sid \<and> pending predicate (snd x)"
           "fin = [] \<or> (\<exists>rep. fin = [(poll_request sid, rep)] \<and> \<not> pending predicate rep)"
           "fst y = poll_outcome sid timeout fin"
        unfolding poll_run_def by blast
      show ?thesis
        unfolding poll_run_def
        using h pend ex u
        by (intro exI [of _ "(poll_request sid, rep) # ps"] exI [of _ fin]) simp
    qed
  qed
qed


lemma pollLoop_returns:
  assumes adv: "clock_advances env" and pos: "0 < interval"
  shows "\<exists>y. pollLoop env sid predicate timeout interval startTime st = Some y"
proof (induction "nat (startTime + timeout - now env st)" arbitrary: st rule: less_induct)
  case less
  show ?case
  proof (cases "now env st - startTime < timeout")
    case False
    then show ?thesis by (subst pollLoop.simps) simp
  next
    case True
    obtain r st1 where g: "getSession env sid st = (r, st1)"
      by (cases "getSession env sid st")
    from getSession_post [OF g]
    have "world st1 = snd (send env (poll_request sid) (world st))" by blast
    with adv have "now env st \<le> now env st1"
      by (simp add: clock_advances_def now_def)
    moreover from adv have "now env st1 + interval \<le> now env (sleep env interval st1)"
      by (simp add: clock_advances_def now_def)
    ultimately have "nat (startTime + timeout - now env (sleep env interval st1))
                       < nat (startTime + timeout - now env st)"
      using True pos by linarith
    from less [OF this] obtain y where
      "pollLoop env sid predicate timeout interval startTime (sleep env interval st1) = Some y"
      by blast
    then show ?thesis
      by (subst pollLoop.simps) (simp add: True g split: sum.splits option.splits)
  qed
qed

lemma string_of_10000: "string_of_number 10000 = ''10000''"
  by (simp add: string_of_number_def string_of_nat.simps)


subsection \<open>Traces of the reconciliation\<close>

lemma poll_phase_pending:
  assumes "\<forall>x\<in>set ps. fst x = poll_request sid \<and> pending pid_cleared (snd x)"
  shows "poll_phase sid (ps @ rest) = poll_phase sid rest"
  using assms by (induction ps) (auto simp: case_prod_beta split: prod.splits)

text \<open>The trace and the result after an accepted terminate request and a finished poll loop.\<close>

lemma after_poll:
  assumes run: "poll_run sid pid_cleared 10000 True st1 (rp, st2)"
    and fin: "(case rp of
                 Inl e \<Rightarrow> y = (Inl e, st2)
               | Inr s \<Rightarrow> y = clearHappyMetadata env sid st2 \<or> y = (Inr (), st2))"
  shows "\<exists>tr. exchanges (snd y) = exchanges st1 @ tr \<and> ui (snd y) = ui st1 \<and> tr \<noteq> [] \<and>
           poll_phase sid tr \<and> fst y = step_outcome sid (last tr)"
proof -
  from run obtain ps fin where
    ex: "exchanges st2 = exchanges st1 @ ps @ fin" and u: "ui st2 = ui st1"
    and ne: "ps @ fin \<noteq> []"
    and ps: "\<forall>x\<in>set ps. fst x = poll_request sid \<and> pending pid_cleared (snd x)"
    and f: "fin = [] \<or> (\<exists>rep. fin = [(poll_request sid, rep)] \<and> \<not> pending pid_cleared rep)"
    and rp: "rp = poll_outcome sid 10000 fin"
    unfolding poll_run_def by auto
  show ?thesis
  proof (cases "fin = []")
    case True
    with ne have psne: "ps \<noteq> []" by simp
    from rp True have rpv: "rp = Inl (Error ''Polling timeout after 10000ms'')"
      by (simp add: poll_outcome_def string_of_10000)
    with fin have y: "y = (Inl (Error ''Polling timeout after 10000ms''), st2)" by simp
    from ps psne have l: "fst (last ps) = poll_request sid" "pending pid_cleared (snd (last ps))"
      by auto
    then have "step_outcome sid (last ps) = Inl (Error ''Polling timeout after 10000ms'')"
      by (cases "last ps"; cases "snd (last ps)")
         (auto simp: poll_request_def pending_def split: option.splits)
    moreover have "poll_phase sid ps"
      using poll_phase_pending [OF ps, of "[]"] by simp
    ultimately show ?thesis
      using y ex u True psne by (intro exI [of _ ps]) simp
  next
    case False
    with f obtain rep where fv: "fin = [(poll_request sid, rep)]"
      and np: "\<not> pending pid_cleared rep" by blast
    show ?thesis
    proof (cases rp)
      case (Inl e)
      with fin have y: "y = (Inl e, st2)" by simp
      from Inl rp fv np have nd: "\<not> done_poll pid_cleared rep"
        by (auto simp: poll_outcome_def done_poll_def split: sum.splits option.splits)
      have "poll_phase sid (ps @ fin)"
        using poll_phase_pending [OF ps, of fin] fv np nd by simp
      moreover have "step_outcome sid (last (ps @ fin)) = Inl e"
        using Inl rp fv np
        by (auto simp: poll_outcome_def poll_request_def pending_def
              split: sum.splits option.splits)
      ultimately show ?thesis
        using y ex u fv by (intro exI [of _ "ps @ fin"]) simp
    next
      case (Inr s)
      from Inr rp fv np have dn: "done_poll pid_cleared rep"
        by (auto simp: poll_outcome_def done_poll_def pending_def
              split: sum.splits option.splits)
      from fin Inr consider (clear) "y = clearHappyMetadata env sid st2" | (skip) "y = (Inr (), st2)"
        by auto
      then show ?thesis
      proof cases
        case skip
        have "poll_phase sid (ps @ fin)"
          using poll_phase_pending [OF ps, of fin] fv np dn by simp
        moreover have "step_outcome sid (last (ps @ fin)) = Inr ()"
          using fv dn
          by (cases rep) (auto simp: poll_request_def done_poll_def split: option.splits)
        ultimately show ?thesis
          using skip ex u fv by (intro exI [of _ "ps @ fin"]) simp
      next
        case clear
        obtain r st3 where c: "clearHappyMetadata env sid st2 = (r, st3)"
          by (cases "clearHappyMetadata env sid st2")
        from clearHappyMetadata_post [OF c] obtain crep where
          cex: "exchanges st3 = exchanges st2 @ [(clear_request sid, crep)]"
          and cu: "ui st3 = ui st2"
          and cr: "r = (case crep of
                          Inl e \<Rightarrow> Inl (Error (''Cannot detach session '' @ sid @ '' from Happy''))
                        | Inr d \<Rightarrow> Inr ())"
          by blast
        have "poll_phase sid (ps @ fin @ [(clear_request sid, crep)])"
          using poll_phase_pending [OF ps, of "fin @ [(clear_request sid, crep)]"] fv np dn
          by simp
        moreover have "step_outcome sid (clear_request sid, crep) = r"
          using cr by (cases crep) (simp_all add: clear_request_def)
        ultimately show ?thesis
          using clear c cex cu ex u
          by (intro exI [of _ "ps @ fin @ [(clear_request sid, crep)]"]) simp
      qed
    qed
  qed
qed


lemma pollSession_run:
  assumes "pollSession env sid pid_cleared (PollOptions (Some 10000) (Some 500)) st1 = Some y"
  shows "poll_run sid pid_cleared 10000 True st1 y"
  using pollLoop_run [of env sid pid_cleared 10000 500 "now env st1" st1 y] assms
  by (simp add: pollSession_def)

lemma pollSession_returns:
  assumes "clock_advances env"
  shows "\<exists>y. pollSession env sid pid_cleared (PollOptions (Some 10000) (Some 500)) st1 = Some y"
  using pollLoop_returns [OF assms, of 500 sid pid_cleared 10000 "now env st1" st1]
  by (simp add: pollSession_def)

lemma after_terminate:
  assumes k: "apiClient_killSession env sid (Some (KillOptions (Some Term) p)) st = (rk, st1)"
    and y: "(case rk of
               Inl e \<Rightarrow> y = (Inl e, st1)
             | Inr d \<Rightarrow> (\<exists>rp st2. poll_run sid pid_cleared 10000 True st1 (rp, st2) \<and>
                  (case rp of
                     Inl e \<Rightarrow> y = (Inl e, st2)
                   | Inr s \<Rightarrow> y = clearHappyMetadata env sid st2 \<or> y = (Inr (), st2))))"
  shows "\<exists>tr. exchanges (snd y) = exchanges st @ tr \<and> ui (snd y) = ui st \<and> tr \<noteq> [] \<and>
           strict_sequence sid p tr \<and> fst y = step_outcome sid (last tr)"
proof -
  from apiClient_killSession_post [OF k] obtain krep where
    kex: "exchanges st1 = exchanges st @ [(terminate_request sid p, krep)]"
    and ku: "ui st1 = ui st"
    and kr: "rk = (case krep of Inl e \<Rightarrow> Inl (Error (''Cannot kill session '' @ sid))
                              | Inr d \<Rightarrow> Inr d)"
    unfolding terminate_request_def by blast
  show ?thesis
  proof (cases krep)
    case (Inl e)
    with kr y have "y = (Inl (Error (''Cannot kill session '' @ sid)), st1)" by simp
    with kex ku Inl show ?thesis
      by (intro exI [of _ "[(terminate_request sid p, krep)]"])
         (simp add: terminate_request_def)
  next
    case (Inr d)
    with kr y obtain rp st2 where
      run: "poll_run sid pid_cleared 10000 True st1 (rp, st2)"
      and fin: "(case rp of
                   Inl e \<Rightarrow> y = (Inl e, st2)
                 | Inr s \<Rightarrow> y = clearHappyMetadata env sid st2 \<or> y = (Inr (), st2))"
      by auto
    from after_poll [OF run fin] obtain tr where
      t: "exchanges (snd y) = exchanges st1 @ tr" "ui (snd y) = ui st1" "tr \<noteq> []"
         "poll_phase sid tr" "fst y = step_outcome sid (last tr)"
      by blast
    with kex ku Inr show ?thesis
      by (intro exI [of _ "(terminate_request sid p, krep) # tr"]) simp
  qed
qed

lemma killSessionSilently_run:
  assumes "killSessionSilently env session st = Some y"
  shows "reconcile_run ''Session has no PID to kill'' session st y"
proof (cases "truthy_number (pid session)")
  case False
  with assms have "y = (Inl (Error ''Session has no PID to kill''), st)"
    by (simp add: killSessionSilently_def)
  with False show ?thesis
    by (simp add: reconcile_run_def outcome_def)
next
  case True
  obtain rk st1 where
    k: "apiClient_killSession env (claudeSessionId session)
          (Some (KillOptions (Some Term) (pid session))) st = (rk, st1)"
    by (cases "apiClient_killSession env (claudeSessionId session)
                 (Some (KillOptions (Some Term) (pid session))) st")
  have "(case rk of
           Inl e \<Rightarrow> y = (Inl e, st1)
         | Inr d \<Rightarrow> (\<exists>rp st2. poll_run (claudeSessionId session) pid_cleared 10000 True st1 (rp, st2) \<and>
              (case rp of
                 Inl e \<Rightarrow> y = (Inl e, st2)
               | Inr s \<Rightarrow> y = clearHappyMetadata env (claudeSessionId session) st2
                          \<or> y = (Inr (), st2))))"
    using assms True k
    by (auto simp: killSessionSilently_def Let_def
          split: sum.splits option.splits prod.splits dest!: pollSession_run)
  from after_terminate [OF k this] True show ?thesis
    by (auto simp: reconcile_run_def outcome_def)
qed

lemma killSession_run:
  assumes "killSession env session st = Some y"
  shows "reconcile_run ''Session has no PID'' session st y"
proof (cases "truthy_number (pid session)")
  case False
  with assms have "y = (Inl (Error ''Session has no PID''), st)"
    by (simp add: killSession_def)
  with False show ?thesis
    by (simp add: reconcile_run_def outcome_def)
next
  case True
  obtain rk st1 where
    k: "apiClient_killSession env (claudeSessionId session)
          (Some (KillOptions (Some Term) (pid session))) st = (rk, st1)"
    by (cases "apiClient_killSession env (claudeSessionId session)
                 (Some (KillOptions (Some Term) (pid session))) st")
  have "(case rk of
           Inl e \<Rightarrow> y = (Inl e, st1)
         | Inr d \<Rightarrow> (\<exists>rp st2. poll_run (claudeSessionId session) pid_cleared 10000 True st1 (rp, st2) \<and>
              (case rp of
                 Inl e \<Rightarrow> y = (Inl e, st2)
               | Inr s \<Rightarrow> y = clearHappyMetadata env (claudeSessionId session) st2
                          \<or> y = (Inr (), st2))))"
    using assms True k
    by (auto simp: killSession_def Let_def
          split: sum.splits option.splits prod.splits if_splits dest!: pollSession_run)
  from after_terminate [OF k this] True show ?thesis
    by (auto simp: reconcile_run_def outcome_def)
qed

lemma killSessionSilently_returns:
  assumes "clock_advances env"
  shows "\<exists>y. killSessionSilently env session st = Some y"
proof -
  have ne: "pollSession env (claudeSessionId session) pid_cleared
              (PollOptions (Some 10000) (Some 500)) st1 \<noteq> None" for st1
    using pollSession_returns [OF assms, of "claudeSessionId session" st1] by auto
  show ?thesis
    by (auto simp: killSessionSilently_def Let_def ne split: sum.splits option.splits prod.splits)
qed

lemma killSession_returns:
  assumes "clock_advances env"
  shows "\<exists>y. killSession env session st = Some y"
proof -
  have ne: "pollSession env (claudeSessionId session) pid_cleared
              (PollOptions (Some 10000) (Some 500)) st1 \<noteq> None" for st1
    using pollSession_returns [OF assms, of "claudeSessionId session" st1] by auto
  show ?thesis
    by (auto simp: killSession_def Let_def ne split: sum.splits option.splits prod.splits)
qed

lemma scripted_clock: "clock_advances scripted_registry"
  by (auto simp: clock_advances_def scripted_registry_def split: list.splits)

subsection \<open>The guard on the process id\<close>

text \<open>
  Claim C2. For every session whose process id is absent, both \<open>killSessionSilently\<close>
  and \<open>killSession\<close> fail at once with the error of the guard (the invalid-state
  error), and the state they return is the state they were given: no terminate request,
  no poll and no metadata-clear request has been issued, whatever the registry is.
  The guard is \<open>!session.pid\<close>, so a process id of zero is treated like an absent one.
\<close>

theorem absent_pid_fails_before_any_request:
  assumes "pid session = None \<or> pid session = Some 0"
  shows "killSessionSilently env session st
           = Some (Inl (Error ''Session has no PID to kill''), st) \<and>
         killSession env session st = Some (Inl (Error ''Session has no PID''), st)"
  using assms by (auto simp: killSessionSilently_def killSession_def)

theorem absent_pid_fails_before_any_request_witness:
  "(pid (example_session\<lparr>pid := None\<rparr>) = None \<or>
    pid (example_session\<lparr>pid := None\<rparr>) = Some 0) \<and>
   killSessionSilently (constant_registry example_session) (example_session\<lparr>pid := None\<rparr>)
       (start 0)
     = Some (Inl (Error ''Session has no PID to kill''), start 0) \<and>
   killSession (constant_registry example_session) (example_session\<lparr>pid := None\<rparr>) (start 0)
     = Some (Inl (Error ''Session has no PID''), start 0)"
  using absent_pid_fails_before_any_request
    [of "example_session\<lparr>pid := None\<rparr>" "constant_registry example_session" "start 0"]
  by simp

subsection \<open>Order of the side effects\<close>

text \<open>
  Claim C1. For every invocation of \<open>killSessionSilently\<close> or \<open>killSession\<close>, the
  requests it issues form an admissible trace (\<open>strict_sequence\<close>): the terminate
  request comes first and only once, polls come only after it was accepted, the
  metadata-clear request comes at most once and only directly after a poll that showed
  the process id absent or the status terminated, and a rejected terminate request, a
  failed poll or a rejected clear request is the last exchange of the trace (nothing is
  retried). The invocation returns whenever the clock advances.
\<close>

theorem side_effects_in_strict_sequence:
  "(clock_advances env \<longrightarrow>
      killSessionSilently env session st \<noteq> None \<and> killSession env session st \<noteq> None) \<and>
   (\<forall>y. killSessionSilently env session st = Some y \<longrightarrow>
      (\<exists>tr. exchanges (snd y) = exchanges st @ tr \<and>
            strict_sequence (claudeSessionId session) (pid session) tr)) \<and>
   (\<forall>y. killSession env session st = Some y \<longrightarrow>
      (\<exists>tr. exchanges (snd y) = exchanges st @ tr \<and>
            strict_sequence (claudeSessionId session) (pid session) tr))"
proof (intro conjI impI allI)
  assume "clock_advances env"
  then show "killSessionSilently env session st \<noteq> None"
    using killSessionSilently_returns [of env session st] by auto
next
  assume "clock_advances env"
  then show "killSession env session st \<noteq> None"
    using killSession_returns [of env session st] by auto
next
  fix y
  assume "killSessionSilently env session st = Some y"
  from killSessionSilently_run [OF this]
  show "\<exists>tr. exchanges (snd y) = exchanges st @ tr \<and>
              strict_sequence (claudeSessionId session) (pid session) tr"
    unfolding reconcile_run_def by blast
next
  fix y
  assume "killSession env session st = Some y"
  from killSession_run [OF this]
  show "\<exists>tr. exchanges (snd y) = exchanges st @ tr \<and>
              strict_sequence (claudeSessionId session) (pid session) tr"
    unfolding reconcile_run_def by blast
qed

theorem side_effects_in_strict_sequence_witness:
  "clock_advances scripted_registry \<and>
   killSession scripted_registry example_session (start (0, script1))
     = Some (Inr (), (start (504, []))\<lparr>exchanges :=
         [(terminate_request ''s1-abcdefgh'' (Some 4242), accepted),
          (poll_request ''s1-abcdefgh'', shows_session example_session),
          (poll_request ''s1-abcdefgh'', shows_session cleared_session),
          (clear_request ''s1-abcdefgh'', accepted)]\<rparr>) \<and>
   strict_sequence ''s1-abcdefgh'' (Some 4242)
     [(terminate_request ''s1-abcdefgh'' (Some 4242), accepted),
      (poll_request ''s1-abcdefgh'', shows_session example_session),
      (poll_request ''s1-abcdefgh'', shows_session cleared_session),
      (clear_request ''s1-abcdefgh'', accepted)]"
proof -
  have run: "killSession scripted_registry example_session (start (0, script1))
     = Some (Inr (), (start (504, []))\<lparr>exchanges :=
         [(terminate_request ''s1-abcdefgh'' (Some 4242), accepted),
          (poll_request ''s1-abcdefgh'', shows_session example_session),
          (poll_request ''s1-abcdefgh'', shows_session cleared_session),
          (clear_request ''s1-abcdefgh'', accepted)]\<rparr>)"
    by code_simp
  note side_effects_in_strict_sequence
         [of scripted_registry example_session "start (0, script1)",
          THEN conjunct2, THEN conjunct2, THEN spec, THEN mp, OF run]
  then have "strict_sequence ''s1-abcdefgh'' (Some 4242)
     [(terminate_request ''s1-abcdefgh'' (Some 4242), accepted),
      (poll_request ''s1-abcdefgh'', shows_session example_session),
      (poll_request ''s1-abcdefgh'', shows_session cleared_session),
      (clear_request ''s1-abcdefgh'', accepted)]"
    by (simp add: start_def example_session_def)
  with run scripted_clock show ?thesis by blast
qed

subsection \<open>Exhausting the polling budget\<close>

lemma stuck_loop:
  assumes clock: "exact_clock env" and stuck: "never_clears env sid"
  shows "now env st = startTime + 500 * int k \<Longrightarrow> k \<le> 20 \<Longrightarrow> n = 20 - k \<Longrightarrow>
         \<exists>st' reps. pollLoop env sid pid_cleared 10000 500 startTime st
                        = Some (Inl (Error ''Polling timeout after 10000ms''), st') \<and>
                     exchanges st' = exchanges st @ polls sid reps \<and> length reps = n \<and>
                     now env st' = startTime + 10000"
proof (induction n arbitrary: st k)
  case 0
  then have "now env st - startTime = 10000" by simp
  then have "pollLoop env sid pid_cleared 10000 500 startTime st
               = Some (Inl (Error ''Polling timeout after 10000ms''), st)"
    by (subst pollLoop.simps) (simp add: string_of_10000)
  with 0 show ?case
    by (intro exI [of _ st] exI [of _ "[]"]) (simp add: polls_def)
next
  case (Suc n)
  then have k: "k < 20" and inb: "now env st - startTime < 10000" by simp_all
  obtain r st1 where g: "getSession env sid st = (r, st1)"
    by (cases "getSession env sid st")
  from getSession_post [OF g] obtain rep where
    ex: "exchanges st1 = exchanges st @ [(poll_request sid, rep)]"
    and w: "world st1 = snd (send env (poll_request sid) (world st))"
    and rep: "rep = fst (send env (poll_request sid) (world st))"
    and r: "r = (case rep of Inl e \<Rightarrow> Inl (Error (''Cannot fetch session '' @ sid))
                        | Inr d \<Rightarrow> Inr (observed rep))"
    by blast
  from stuck rep have pend: "pending pid_cleared rep"
    by (simp add: never_clears_def)
  then obtain s where rs: "r = Inr (Some s)" and ns: "\<not> pid_cleared s"
    using r by (cases rep) (auto simp: pending_def split: option.splits)
  from clock w have "now env st1 = now env st"
    by (simp add: exact_clock_def now_def)
  with clock Suc.prems have t: "now env (sleep env 500 st1) = startTime + 500 * int (Suc k)"
    by (simp add: exact_clock_def now_def)
  from Suc.IH [OF t] k Suc.prems obtain st' reps where
    h: "pollLoop env sid pid_cleared 10000 500 startTime (sleep env 500 st1)
          = Some (Inl (Error ''Polling timeout after 10000ms''), st')"
       "exchanges st' = exchanges (sleep env 500 st1) @ polls sid reps" "length reps = n"
       "now env st' = startTime + 10000"
    by fastforce
  have "pollLoop env sid pid_cleared 10000 500 startTime st
          = Some (Inl (Error ''Polling timeout after 10000ms''), st')"
    using inb g rs ns h(1) by (subst pollLoop.simps) simp
  with h ex show ?case
    by (intro exI [of _ st'] exI [of _ "rep # reps"]) (simp add: polls_def)
qed


text \<open>
  Claim C3. If the registry accepts the terminate request but every poll shows a record
  that still has its process id and is not terminated, then, with requests that take
  no time and sleeps that take exactly their interval, both functions fail with the
  polling-timeout error after exactly 20 polls (\<open>getSession\<close> calls), 10000 ms after
  they started.
\<close>

theorem never_cleared_times_out_after_20_polls:
  assumes pid: "truthy_number (pid session)"
    and clock: "exact_clock env"
    and stuck: "never_clears env (claudeSessionId session)"
    and acc: "fst (send env (terminate_request (claudeSessionId session) (pid session)) (world st))
                = Inr d"
  shows "\<exists>st' reps.
           killSessionSilently env session st
             = Some (Inl (Error ''Polling timeout after 10000ms''), st') \<and>
           killSession env session st
             = Some (Inl (Error ''Polling timeout after 10000ms''), st') \<and>
           exchanges st' = exchanges st
             @ (terminate_request (claudeSessionId session) (pid session), Inr d)
             # polls (claudeSessionId session) reps \<and>
           length reps = 20 \<and>
           now env st' = now env st + 10000"
proof -
  let ?sid = "claudeSessionId session"
  obtain rk st1 where
    k: "apiClient_killSession env ?sid (Some (KillOptions (Some Term) (pid session))) st = (rk, st1)"
    by (cases "apiClient_killSession env ?sid (Some (KillOptions (Some Term) (pid session))) st")
  from apiClient_killSession_post [OF k] acc
  have kex: "exchanges st1 = exchanges st @ [(terminate_request ?sid (pid session), Inr d)]"
    and kw: "world st1 = snd (send env (terminate_request ?sid (pid session)) (world st))"
    and kr: "rk = Inr d"
    by (auto simp: terminate_request_def)
  from clock kw have t: "now env st1 = now env st"
    by (simp add: exact_clock_def now_def)
  from stuck_loop [OF clock stuck, of st1 "now env st1" 0 20] obtain st' reps where
    h: "pollLoop env ?sid pid_cleared 10000 500 (now env st1) st1
          = Some (Inl (Error ''Polling timeout after 10000ms''), st')"
       "exchanges st' = exchanges st1 @ polls ?sid reps" "length reps = 20"
       "now env st' = now env st1 + 10000"
    by auto
  then have p: "pollSession env ?sid pid_cleared (PollOptions (Some 10000) (Some 500)) st1
                  = Some (Inl (Error ''Polling timeout after 10000ms''), st')"
    by (simp add: pollSession_def)
  have "killSessionSilently env session st
          = Some (Inl (Error ''Polling timeout after 10000ms''), st')"
    using pid k kr p by (simp add: killSessionSilently_def)
  moreover have "killSession env session st
          = Some (Inl (Error ''Polling timeout after 10000ms''), st')"
    using pid k kr p by (simp add: killSession_def)
  ultimately show ?thesis
    using h kex t by (intro exI [of _ st'] exI [of _ reps]) simp
qed

lemma constant_registry_exact: "exact_clock (constant_registry s)"
  by (simp add: exact_clock_def constant_registry_def)

theorem never_cleared_times_out_after_20_polls_witness:
  "truthy_number (pid example_session) \<and>
   exact_clock (constant_registry example_session) \<and>
   never_clears (constant_registry example_session) ''s1-abcdefgh'' \<and>
   fst (send (constant_registry example_session)
          (terminate_request ''s1-abcdefgh'' (Some 4242)) (world (start 0))) = accepted \<and>
   (\<exists>st' reps.
      killSessionSilently (constant_registry example_session) example_session (start 0)
        = Some (Inl (Error ''Polling timeout after 10000ms''), st') \<and>
      killSession (constant_registry example_session) example_session (start 0)
        = Some (Inl (Error ''Polling timeout after 10000ms''), st') \<and>
      exchanges st' = (terminate_request ''s1-abcdefgh'' (Some 4242), accepted)
        # polls ''s1-abcdefgh'' reps \<and>
      length reps = 20 \<and>
      world st' = 10000)"
proof -
  have a: "truthy_number (pid example_session)"
    by (simp add: example_session_def)
  have b: "never_clears (constant_registry example_session) (claudeSessionId example_session)"
    by (simp add: never_clears_def constant_registry_def poll_request_def pending_def
          pid_cleared_def example_session_def)
  have c: "fst (send (constant_registry example_session)
             (terminate_request (claudeSessionId example_session) (pid example_session))
             (world (start 0))) = Inr (KillResult True ''term'' 4242)"
    by (simp add: constant_registry_def terminate_request_def)
  from never_cleared_times_out_after_20_polls [OF a constant_registry_exact b c]
  show ?thesis
    using a b c constant_registry_exact [of example_session]
    by (simp add: example_session_def start_def accepted_def now_def constant_registry_def)
qed

subsection \<open>A record that has vanished\<close>

lemma poll_phase_failed_last:
  assumes "poll_phase sid tr" "i < length tr" "tr ! i = (poll_request sid, rep)"
    "\<not> pending pid_cleared rep" "\<not> done_poll pid_cleared rep"
  shows "Suc i = length tr"
  using assms
proof (induction tr arbitrary: i)
  case Nil
  then show ?case by simp
next
  case (Cons x rest)
  obtain req0 rep0 where x: "x = (req0, rep0)" by (cases x)
  show ?case
  proof (cases i)
    case 0
    with Cons.prems x show ?thesis by simp
  next
    case (Suc j)
    with Cons.prems have j: "j < length rest" "rest ! j = (poll_request sid, rep)" by simp_all
    show ?thesis
    proof (cases "pending pid_cleared rep0")
      case True
      with Cons.prems x have "poll_phase sid rest" by simp
      from Cons.IH [OF this j Cons.prems(4,5)] Suc show ?thesis by simp
    next
      case False
      show ?thesis
      proof (cases "done_poll pid_cleared rep0")
        case True
        with False Cons.prems x have c: "clear_phase sid rest" by simp
        from c j show ?thesis
          by (cases rest; cases "tl rest")
             (auto simp: poll_request_def clear_request_def)
      next
        case nd: False
        with False Cons.prems x have "rest = []" by simp
        with j show ?thesis by simp
      qed
    qed
  qed
qed

lemma strict_sequence_failed_last:
  assumes "strict_sequence sid p tr" "i < length tr" "tr ! i = (poll_request sid, rep)"
    "\<not> pending pid_cleared rep" "\<not> done_poll pid_cleared rep"
  shows "Suc i = length tr"
proof (cases tr)
  case Nil
  with assms show ?thesis by simp
next
  case (Cons x rest)
  obtain req0 rep0 where x: "x = (req0, rep0)" by (cases x)
  show ?thesis
  proof (cases i)
    case 0
    with assms Cons x show ?thesis
      by (simp add: poll_request_def terminate_request_def)
  next
    case (Suc j)
    with assms Cons x have "poll_phase sid rest" "j < length rest"
      "rest ! j = (poll_request sid, rep)"
      by (auto split: sum.splits)
    from poll_phase_failed_last [OF this assms(4,5)] Cons Suc show ?thesis by simp
  qed
qed

text \<open>
  Claim C4. A poll that finds no record for the session ends the reconciliation at once
  with the session-not-found error. First, at any iteration of the poll loop, whatever
  happened before: if the budget is not exhausted and the registry answers the poll
  with no record, the loop returns that error and its last exchange is that poll.
  Second, for a whole run of \<open>killSessionSilently\<close> or \<open>killSession\<close>: if any exchange
  of the trace is a poll answered with no record, then the result is that error and
  the exchange is the last of the trace, so no further poll and no metadata-clear
  request was issued.
\<close>

theorem missing_record_fails_at_once:
  "(now env st - startTime < timeout \<and>
    fst (send env (poll_request sid) (world st)) = Inr d \<and> observed (Inr d) = None \<longrightarrow>
      (\<exists>st1. pollLoop env sid predicate timeout interval startTime st
                = Some (Inl (Error (''Session '' @ sid @ '' not found'')), st1) \<and>
             exchanges st1 = exchanges st @ [(poll_request sid, Inr d)])) \<and>
   (\<forall>r st' tr i d'.
      (killSessionSilently env session st0 = Some (r, st') \<or>
       killSession env session st0 = Some (r, st')) \<and>
      exchanges st' = exchanges st0 @ tr \<and> i < length tr \<and>
      tr ! i = (poll_request (claudeSessionId session), Inr d') \<and> observed (Inr d') = None \<longrightarrow>
        r = Inl (Error (''Session '' @ claudeSessionId session @ '' not found'')) \<and>
        Suc i = length tr)"
proof (rule conjI; intro impI allI)
  assume a: "now env st - startTime < timeout \<and>
    fst (send env (poll_request sid) (world st)) = Inr d \<and> observed (Inr d) = None"
  obtain r st1 where g: "getSession env sid st = (r, st1)"
    by (cases "getSession env sid st")
  from getSession_post [OF g] a
  have "exchanges st1 = exchanges st @ [(poll_request sid, Inr d)]" "r = Inr None"
    by auto
  moreover from this a g
  have "pollLoop env sid predicate timeout interval startTime st
          = Some (Inl (Error (''Session '' @ sid @ '' not found'')), st1)"
    by (subst pollLoop.simps) simp
  ultimately show "\<exists>st1. pollLoop env sid predicate timeout interval startTime st
                = Some (Inl (Error (''Session '' @ sid @ '' not found'')), st1) \<and>
             exchanges st1 = exchanges st @ [(poll_request sid, Inr d)]"
    by blast
next
  fix r st' tr i d'
  let ?sid = "claudeSessionId session"
  assume a: "(killSessionSilently env session st0 = Some (r, st') \<or>
       killSession env session st0 = Some (r, st')) \<and>
      exchanges st' = exchanges st0 @ tr \<and> i < length tr \<and>
      tr ! i = (poll_request ?sid, Inr d') \<and> observed (Inr d') = None"
  then have "\<exists>no_pid. reconcile_run no_pid session st0 (r, st')"
    using killSessionSilently_run killSession_run by blast
  with a have seq: "strict_sequence ?sid (pid session) tr"
    and "\<exists>no_pid. r = outcome no_pid ?sid tr"
    by (auto simp: reconcile_run_def)
  then obtain no_pid where r: "r = outcome no_pid ?sid tr" by blast
  from a have np: "\<not> pending pid_cleared (Inr d')" "\<not> done_poll pid_cleared (Inr d')"
    by (simp_all add: pending_def done_poll_def)
  from a have i: "i < length tr" "tr ! i = (poll_request ?sid, Inr d')" by simp_all
  from strict_sequence_failed_last [OF seq i np] have l: "Suc i = length tr" .
  from i have ne: "tr \<noteq> []" by auto
  from l have "length tr - 1 = i" by simp
  with ne i have "last tr = (poll_request ?sid, Inr d')"
    by (simp add: last_conv_nth)
  with ne r a have "r = Inl (Error (''Session '' @ ?sid @ '' not found''))"
    by (simp add: outcome_def poll_request_def)
  with l show "r = Inl (Error (''Session '' @ ?sid @ '' not found'')) \<and> Suc i = length tr"
    by simp
qed


theorem missing_record_fails_at_once_witness:
  "now scripted_registry (start (0, [shows_nothing])) - 0 < 10000 \<and>
   fst (send scripted_registry (poll_request ''s1-abcdefgh'') (world (start (0, [shows_nothing]))))
     = shows_nothing \<and>
   observed shows_nothing = None \<and>
   pollLoop scripted_registry ''s1-abcdefgh'' pid_cleared 10000 500 0 (start (0, [shows_nothing]))
     = Some (Inl (Error ''Session s1-abcdefgh not found''),
             (start (1, []))\<lparr>exchanges := [(poll_request ''s1-abcdefgh'', shows_nothing)]\<rparr>) \<and>
   killSession scripted_registry example_session (start (0, script2))
     = Some (Inl (Error ''Session s1-abcdefgh not found''),
             (start (503, [accepted]))\<lparr>exchanges :=
                [(terminate_request ''s1-abcdefgh'' (Some 4242), accepted),
                 (poll_request ''s1-abcdefgh'', shows_session example_session),
                 (poll_request ''s1-abcdefgh'', shows_nothing)]\<rparr>) \<and>
   Suc 2 = length
     [(terminate_request ''s1-abcdefgh'' (Some 4242), accepted),
      (poll_request ''s1-abcdefgh'', shows_session example_session),
      (poll_request ''s1-abcdefgh'', shows_nothing)]"
proof -
  have run: "killSession scripted_registry example_session (start (0, script2))
     = Some (Inl (Error ''Session s1-abcdefgh not found''),
             (start (503, [accepted]))\<lparr>exchanges :=
                [(terminate_request ''s1-abcdefgh'' (Some 4242), accepted),
                 (poll_request ''s1-abcdefgh'', shows_session example_session),
                 (poll_request ''s1-abcdefgh'', shows_nothing)]\<rparr>)"
    by code_simp
  have a: "now scripted_registry (start (0, [shows_nothing])) - 0 < 10000 \<and>
    fst (send scripted_registry (poll_request ''s1-abcdefgh'') (world (start (0, [shows_nothing]))))
      = Inr (ApiResponse (Some [])) \<and>
    observed (Inr (ApiResponse (Some []))) = None"
    by (simp add: now_def scripted_registry_def start_def shows_nothing_def)
  note inst = missing_record_fails_at_once
    [of scripted_registry "start (0, [shows_nothing])" 0 10000 "''s1-abcdefgh''"
        "ApiResponse (Some [])" pid_cleared 500 example_session "start (0, script2)"]
  note first = inst [THEN conjunct1, THEN mp, OF a]
  have loop: "pollLoop scripted_registry ''s1-abcdefgh'' pid_cleared 10000 500 0
      (start (0, [shows_nothing]))
     = Some (Inl (Error ''Session s1-abcdefgh not found''),
             (start (1, []))\<lparr>exchanges := [(poll_request ''s1-abcdefgh'', shows_nothing)]\<rparr>)"
    by code_simp
  from inst [THEN conjunct2, THEN spec, THEN spec, THEN spec, THEN spec, THEN spec,
    of "Inl (Error ''Session s1-abcdefgh not found'')" _
       "[(terminate_request ''s1-abcdefgh'' (Some 4242), accepted),
         (poll_request ''s1-abcdefgh'', shows_session example_session),
         (poll_request ''s1-abcdefgh'', shows_nothing)]" 2 "ApiResponse (Some [])"] run
  have "Suc 2 = length
     [(terminate_request ''s1-abcdefgh'' (Some 4242), accepted),
      (poll_request ''s1-abcdefgh'', shows_session example_session),
      (poll_request ''s1-abcdefgh'', shows_nothing)]"
    by (simp add: start_def example_session_def shows_nothing_def)
  with run loop a first show ?thesis
    by (simp add: shows_nothing_def)
qed

subsection \<open>The process is gone at the first poll\<close>

lemma http_eq:
  "http env req st = (fst (send env req (world st)),
      after st (snd (send env req (world st))) [(req, fst (send env req (world st)))])"
  by (simp add: http_def after_def split: prod.splits)

lemma after_after [simp]: "after (after st w tr) w' tr' = after st w' (tr @ tr')"
  by (simp add: after_def)

lemma world_after [simp]: "world (after st w tr) = w"
  by (simp add: after_def)

lemma exchanges_after [simp]: "exchanges (after st w tr) = exchanges st @ tr"
  by (simp add: after_def)

lemma first_poll_done:
  assumes "fst (send env (poll_request sid) (world st)) = rep" "done_poll pid_cleared rep"
  shows "\<exists>s. pollSession env sid pid_cleared (PollOptions (Some 10000) (Some 500)) st
           = Some (Inr s, after st (snd (send env (poll_request sid) (world st)))
                            [(poll_request sid, rep)])"
proof -
  from assms(2) obtain d s where rep: "rep = Inr d" and o: "observed (Inr d) = Some s"
    and c: "pid_cleared s"
    by (cases rep) (auto simp: done_poll_def split: option.splits)
  have "getSession env sid st
          = (Inr (Some s), after st (snd (send env (poll_request sid) (world st)))
                             [(poll_request sid, rep)])"
    using assms(1) rep o
    by (auto simp: getSession_def listSessions_def http_eq poll_request_def
          split: list.splits)
  then show ?thesis
    using c by (subst pollSession_def, subst pollLoop.simps) simp
qed

lemma single_poll_run:
  fixes env :: "'w env" and session :: LocalSession and st :: "'w state"
  defines "sid \<equiv> claudeSessionId session"
  defines "k \<equiv> send env (terminate_request sid (pid session)) (world st)"
  defines "p \<equiv> send env (poll_request sid) (snd k)"
  defines "c \<equiv> send env (clear_request sid) (snd p)"
  assumes pid: "truthy_number (pid session)"
    and k: "fst k = Inr d0"
    and p: "done_poll pid_cleared (fst p)"
  shows "fst c = Inr d2 \<Longrightarrow>
         killSessionSilently env session st
           = Some (Inr (), after st (snd c)
               [(terminate_request sid (pid session), fst k), (poll_request sid, fst p),
                (clear_request sid, fst c)])"
    and "fst c = Inr d2 \<Longrightarrow> truthy_string (happySessionId session) \<Longrightarrow>
         killSession env session st
           = Some (Inr (), after st (snd c)
               [(terminate_request sid (pid session), fst k), (poll_request sid, fst p),
                (clear_request sid, fst c)])"
    and "\<not> truthy_string (happySessionId session) \<Longrightarrow>
         killSession env session st
           = Some (Inr (), after st (snd p)
               [(terminate_request sid (pid session), fst k), (poll_request sid, fst p)])"
proof -
  let ?st1 = "after st (snd k) [(terminate_request sid (pid session), Inr d0)]"
  have kill: "apiClient_killSession env sid (Some (KillOptions (Some Term) (pid session))) st
                = (Inr d0, ?st1)"
    using k by (simp add: apiClient_killSession_def http_eq terminate_request_def k_def)
  from first_poll_done [of env sid ?st1, OF refl] p obtain s where
    poll: "pollSession env sid pid_cleared (PollOptions (Some 10000) (Some 500)) ?st1
             = Some (Inr s, after ?st1 (snd p) [(poll_request sid, fst p)])"
    by (auto simp: p_def)
  show "fst c = Inr d2 \<Longrightarrow>
         killSessionSilently env session st
           = Some (Inr (), after st (snd c)
               [(terminate_request sid (pid session), fst k), (poll_request sid, fst p),
                (clear_request sid, fst c)])"
    using pid kill poll k
    by (simp add: killSessionSilently_def Let_def clearHappyMetadata_def http_eq
          clear_request_def c_def sid_def [symmetric])
  show "fst c = Inr d2 \<Longrightarrow> truthy_string (happySessionId session) \<Longrightarrow>
         killSession env session st
           = Some (Inr (), after st (snd c)
               [(terminate_request sid (pid session), fst k), (poll_request sid, fst p),
                (clear_request sid, fst c)])"
    using pid kill poll k
    by (simp add: killSession_def Let_def clearHappyMetadata_def http_eq
          clear_request_def c_def sid_def [symmetric])
  show "\<not> truthy_string (happySessionId session) \<Longrightarrow>
         killSession env session st
           = Some (Inr (), after st (snd p)
               [(terminate_request sid (pid session), fst k), (poll_request sid, fst p)])"
    using pid kill poll k
    by (simp add: killSession_def Let_def sid_def [symmetric])
qed



text \<open>
  Claim C5, as stated, fails: with the terminate request accepted and the first poll
  showing the process gone, the procedure still fails when the registry rejects the
  metadata-clear request that follows the poll.
\<close>

theorem rejected_clear_fails_after_first_poll_cleared:
  "truthy_number (pid example_session) \<and>
   send scripted_registry (terminate_request ''s1-abcdefgh'' (Some 4242)) (0, script3)
     = (accepted, (1, [shows_session cleared_session, rejected])) \<and>
   send scripted_registry (poll_request ''s1-abcdefgh'')
       (1, [shows_session cleared_session, rejected])
     = (shows_session cleared_session, (2, [rejected])) \<and>
   done_poll pid_cleared (shows_session cleared_session) \<and>
   killSessionSilently scripted_registry example_session (start (0, script3))
     = Some (Inl (Error ''Cannot detach session s1-abcdefgh from Happy''),
         (start (3, []))\<lparr>exchanges :=
            [(terminate_request ''s1-abcdefgh'' (Some 4242), accepted),
             (poll_request ''s1-abcdefgh'', shows_session cleared_session),
             (clear_request ''s1-abcdefgh'', rejected)],
          console :=
            [''Failed to clear Happy metadata: Request failed with status code 500'']\<rparr>) \<and>
   killSession scripted_registry example_session (start (0, script3))
     = Some (Inl (Error ''Cannot detach session s1-abcdefgh from Happy''),
         (start (3, []))\<lparr>exchanges :=
            [(terminate_request ''s1-abcdefgh'' (Some 4242), accepted),
             (poll_request ''s1-abcdefgh'', shows_session cleared_session),
             (clear_request ''s1-abcdefgh'', rejected)],
          console :=
            [''Failed to clear Happy metadata: Request failed with status code 500'']\<rparr>)"
  by code_simp

text \<open>
  Claim C5, amended. For every session with a present process id, if the registry
  accepts the terminate request, shows the process id cleared or the status terminated
  at the first poll, and accepts the metadata-clear request, then both functions
  succeed after exactly one poll and without sleeping: the final world is the one
  left by the last request. \<open>killSession\<close> sends the clear request only for a session
  with a link; without one it succeeds right after the poll.
\<close>

theorem first_poll_cleared_succeeds_after_one_poll:
  assumes pid: "truthy_number (pid session)"
    and k: "send env (terminate_request (claudeSessionId session) (pid session)) (world st)
              = (Inr d0, w1)"
    and p: "send env (poll_request (claudeSessionId session)) w1 = (rep, w2)"
    and d: "done_poll pid_cleared rep"
    and c: "send env (clear_request (claudeSessionId session)) w2 = (Inr d2, w3)"
  shows "killSessionSilently env session st
           = Some (Inr (), after st w3
               [(terminate_request (claudeSessionId session) (pid session), Inr d0),
                (poll_request (claudeSessionId session), rep),
                (clear_request (claudeSessionId session), Inr d2)]) \<and>
         killSession env session st
           = Some (Inr (),
               if truthy_string (happySessionId session)
               then after st w3
                 [(terminate_request (claudeSessionId session) (pid session), Inr d0),
                  (poll_request (claudeSessionId session), rep),
                  (clear_request (claudeSessionId session), Inr d2)]
               else after st w2
                 [(terminate_request (claudeSessionId session) (pid session), Inr d0),
                  (poll_request (claudeSessionId session), rep)])"
proof -
  let ?sid = "claudeSessionId session"
  have k': "fst (send env (terminate_request ?sid (pid session)) (world st)) = Inr d0"
    and p': "done_poll pid_cleared (fst (send env (poll_request ?sid)
               (snd (send env (terminate_request ?sid (pid session)) (world st)))))"
    and c': "fst (send env (clear_request ?sid) (snd (send env (poll_request ?sid)
               (snd (send env (terminate_request ?sid (pid session)) (world st)))))) = Inr d2"
    using k p d c by simp_all
  note runs = single_poll_run(1) [OF pid k' p' c'] single_poll_run(2) [OF pid k' p' c']
    single_poll_run(3) [OF pid k' p']
  then show ?thesis
    using k p c by (cases "truthy_string (happySessionId session)") simp_all
qed

theorem first_poll_cleared_succeeds_after_one_poll_witness:
  "truthy_number (pid example_session) \<and>
   send (constant_registry cleared_session) (terminate_request ''s1-abcdefgh'' (Some 4242))
       (world (start 0)) = (accepted, 0) \<and>
   send (constant_registry cleared_session) (poll_request ''s1-abcdefgh'') 0
     = (shows_session cleared_session, 0) \<and>
   done_poll pid_cleared (shows_session cleared_session) \<and>
   send (constant_registry cleared_session) (clear_request ''s1-abcdefgh'') 0
     = (Inr OtherData, 0) \<and>
   killSessionSilently (constant_registry cleared_session) example_session (start 0)
     = Some (Inr (), after (start 0) 0
         [(terminate_request ''s1-abcdefgh'' (Some 4242), accepted),
          (poll_request ''s1-abcdefgh'', shows_session cleared_session),
          (clear_request ''s1-abcdefgh'', Inr OtherData)]) \<and>
   killSession (constant_registry cleared_session) example_session (start 0)
     = Some (Inr (), after (start 0) 0
         [(terminate_request ''s1-abcdefgh'' (Some 4242), accepted),
          (poll_request ''s1-abcdefgh'', shows_session cleared_session),
          (clear_request ''s1-abcdefgh'', Inr OtherData)])"
proof -
  have a: "truthy_number (pid example_session)"
    by (simp add: example_session_def)
  have k: "send (constant_registry cleared_session)
             (terminate_request (claudeSessionId example_session) (pid example_session))
             (world (start 0)) = (Inr (KillResult True ''term'' 4242), 0)"
    by (simp add: constant_registry_def terminate_request_def start_def)
  have p: "send (constant_registry cleared_session)
             (poll_request (claudeSessionId example_session)) 0
             = (shows_session cleared_session, 0)"
    by (simp add: constant_registry_def poll_request_def shows_session_def)
  have d: "done_poll pid_cleared (shows_session cleared_session)"
    by (simp add: done_poll_def shows_session_def pid_cleared_def cleared_session_def)
  have c: "send (constant_registry cleared_session)
             (clear_request (claudeSessionId example_session)) 0 = (Inr OtherData, 0)"
    by (simp add: constant_registry_def clear_request_def)
  from first_poll_cleared_succeeds_after_one_poll [OF a k p d c] a k p d c
  show ?thesis
    by (simp add: example_session_def accepted_def)
qed

subsection \<open>Reconciling twice\<close>

lemma accepted_run:
  fixes env :: "'w env"
  assumes pid: "truthy_number (pid session)"
    and k: "accepts env (terminate_request (claudeSessionId session) (pid session))"
    and c: "accepts env (clear_request (claudeSessionId session))"
    and p: "always_cleared env (claudeSessionId session)"
  shows "\<exists>st1 tr. killSessionSilently env session st = Some (Inr (), st1) \<and>
           exchanges st1 = exchanges st @ tr \<and> map fst tr = one_poll_requests session True"
    and "\<exists>st1 tr. killSession env session st = Some (Inr (), st1) \<and>
           exchanges st1 = exchanges st @ tr \<and>
           map fst tr = one_poll_requests session (truthy_string (happySessionId session))"
proof -
  let ?sid = "claudeSessionId session"
  let ?k = "send env (terminate_request ?sid (pid session)) (world st)"
  let ?p = "send env (poll_request ?sid) (snd ?k)"
  let ?c = "send env (clear_request ?sid) (snd ?p)"
  from k have "\<not> isl (fst ?k)" by (simp add: accepts_def)
  then obtain d0 where k': "fst ?k = Inr d0"
    by (cases "fst ?k") auto
  from c have "\<not> isl (fst ?c)" by (simp add: accepts_def)
  then obtain d2 where c': "fst ?c = Inr d2"
    by (cases "fst ?c") auto
  from p have p': "done_poll pid_cleared (fst ?p)"
    by (simp add: always_cleared_def)
  note runs = single_poll_run(1) [OF pid k' p' c'] single_poll_run(2) [OF pid k' p' c']
    single_poll_run(3) [OF pid k' p']
  from runs(1)
  show "\<exists>st1 tr. killSessionSilently env session st = Some (Inr (), st1) \<and>
           exchanges st1 = exchanges st @ tr \<and> map fst tr = one_poll_requests session True"
    by (simp add: one_poll_requests_def)
  from runs(2,3)
  show "\<exists>st1 tr. killSession env session st = Some (Inr (), st1) \<and>
           exchanges st1 = exchanges st @ tr \<and>
           map fst tr = one_poll_requests session (truthy_string (happySessionId session))"
    by (cases "truthy_string (happySessionId session)") (simp_all add: one_poll_requests_def)
qed

text \<open>
  Claim C6, as stated, fails. The procedure takes the process id from the session record
  it is given. For the record of a session whose process was already terminated and
  whose link was already cleared, and a registry that shows the process id cleared and
  accepts every terminate and clear request, both functions fail with the error of the
  guard, on the first invocation as on any later one, and send no request at all. And
  when the record still carries a process id but no link, \<open>killSession\<close> succeeds
  without sending a clear request.
\<close>

theorem reconciled_record_is_refused:
  "pid reconciled_session = None \<and>
   happySessionId reconciled_session = None \<and>
   accepts (constant_registry reconciled_session)
     (terminate_request ''s1-abcdefgh'' (pid reconciled_session)) \<and>
   accepts (constant_registry reconciled_session) (clear_request ''s1-abcdefgh'') \<and>
   always_cleared (constant_registry reconciled_session) ''s1-abcdefgh'' \<and>
   killSessionSilently (constant_registry reconciled_session) reconciled_session (start 0)
     = Some (Inl (Error ''Session has no PID to kill''), start 0) \<and>
   killSession (constant_registry reconciled_session) reconciled_session (start 0)
     = Some (Inl (Error ''Session has no PID''), start 0) \<and>
   killSession (constant_registry reconciled_session)
       (reconciled_session\<lparr>pid := Some 4242\<rparr>) (start 0)
     = Some (Inr (), after (start 0) 0
         [(terminate_request ''s1-abcdefgh'' (Some 4242), accepted),
          (poll_request ''s1-abcdefgh'', shows_session reconciled_session)])"
proof -
  have a: "pid reconciled_session = None" "happySessionId reconciled_session = None"
    by (simp_all add: reconciled_session_def example_session_def)
  have k: "accepts (constant_registry reconciled_session)
             (terminate_request ''s1-abcdefgh'' (pid reconciled_session))"
    by (simp add: accepts_def constant_registry_def terminate_request_def)
  have c: "accepts (constant_registry reconciled_session) (clear_request ''s1-abcdefgh'')"
    by (simp add: accepts_def constant_registry_def clear_request_def)
  have p: "always_cleared (constant_registry reconciled_session) ''s1-abcdefgh''"
    by (simp add: always_cleared_def constant_registry_def poll_request_def done_poll_def
          pid_cleared_def reconciled_session_def)
  have r1: "killSessionSilently (constant_registry reconciled_session) reconciled_session (start 0)
     = Some (Inl (Error ''Session has no PID to kill''), start 0)"
    by (simp add: killSessionSilently_def a)
  have r2: "killSession (constant_registry reconciled_session) reconciled_session (start 0)
     = Some (Inl (Error ''Session has no PID''), start 0)"
    by (simp add: killSession_def a)
  have r3: "killSession (constant_registry reconciled_session)
       (reconciled_session\<lparr>pid := Some 4242\<rparr>) (start 0)
     = Some (Inr (), after (start 0) 0
         [(terminate_request ''s1-abcdefgh'' (Some 4242), accepted),
          (poll_request ''s1-abcdefgh'', shows_session reconciled_session)])"
    by code_simp
  from a k c p r1 r2 r3 show ?thesis by blast
qed

text \<open>
  Claim C6, amended. Let the registry show the process id cleared at every poll and
  accept every terminate and clear request for the session, and let the session record
  handed to the procedure still carry its process id. Then invoking the procedure twice
  in a row succeeds both times. Each invocation of \<open>killSessionSilently\<close> sends the
  terminate request, polls once and sends the clear request; each invocation of
  \<open>killSession\<close> does the same, but sends the clear request only when the record still
  carries the link.
\<close>

theorem reconciling_twice_succeeds_twice:
  fixes env :: "'w env"
  assumes pid: "truthy_number (pid session)"
    and k: "accepts env (terminate_request (claudeSessionId session) (pid session))"
    and c: "accepts env (clear_request (claudeSessionId session))"
    and p: "always_cleared env (claudeSessionId session)"
  shows "(\<exists>st1 st2 tr1 tr2.
            killSessionSilently env session st = Some (Inr (), st1) \<and>
            killSessionSilently env session st1 = Some (Inr (), st2) \<and>
            exchanges st1 = exchanges st @ tr1 \<and> exchanges st2 = exchanges st1 @ tr2 \<and>
            map fst tr1 = one_poll_requests session True \<and>
            map fst tr2 = one_poll_requests session True) \<and>
         (\<exists>st1 st2 tr1 tr2.
            killSession env session st = Some (Inr (), st1) \<and>
            killSession env session st1 = Some (Inr (), st2) \<and>
            exchanges st1 = exchanges st @ tr1 \<and> exchanges st2 = exchanges st1 @ tr2 \<and>
            map fst tr1 = one_poll_requests session (truthy_string (happySessionId session)) \<and>
            map fst tr2 = one_poll_requests session (truthy_string (happySessionId session)))"
proof
  from accepted_run(1) [OF pid k c p, of st] obtain st1 tr1 where
    a: "killSessionSilently env session st = Some (Inr (), st1)"
       "exchanges st1 = exchanges st @ tr1" "map fst tr1 = one_poll_requests session True"
    by blast
  from accepted_run(1) [OF pid k c p, of st1] obtain st2 tr2 where
    b: "killSessionSilently env session st1 = Some (Inr (), st2)"
       "exchanges st2 = exchanges st1 @ tr2" "map fst tr2 = one_poll_requests session True"
    by blast
  from a b show "\<exists>st1 st2 tr1 tr2.
            killSessionSilently env session st = Some (Inr (), st1) \<and>
            killSessionSilently env session st1 = Some (Inr (), st2) \<and>
            exchanges st1 = exchanges st @ tr1 \<and> exchanges st2 = exchanges st1 @ tr2 \<and>
            map fst tr1 = one_poll_requests session True \<and>
            map fst tr2 = one_poll_requests session True"
    by blast
next
  let ?h = "truthy_string (happySessionId session)"
  from accepted_run(2) [OF pid k c p, of st] obtain st1 tr1 where
    a: "killSession env session st = Some (Inr (), st1)"
       "exchanges st1 = exchanges st @ tr1" "map fst tr1 = one_poll_requests session ?h"
    by blast
  from accepted_run(2) [OF pid k c p, of st1] obtain st2 tr2 where
    b: "killSession env session st1 = Some (Inr (), st2)"
       "exchanges st2 = exchanges st1 @ tr2" "map fst tr2 = one_poll_requests session ?h"
    by blast
  from a b show "\<exists>st1 st2 tr1 tr2.
            killSession env session st = Some (Inr (), st1) \<and>
            killSession env session st1 = Some (Inr (), st2) \<and>
            exchanges st1 = exchanges st @ tr1 \<and> exchanges st2 = exchanges st1 @ tr2 \<and>
            map fst tr1 = one_poll_requests session ?h \<and>
            map fst tr2 = one_poll_requests session ?h"
    by blast
qed

theorem reconciling_twice_succeeds_twice_witness:
  "truthy_number (pid example_session) \<and>
   accepts (constant_registry cleared_session)
     (terminate_request ''s1-abcdefgh'' (Some 4242)) \<and>
   accepts (constant_registry cleared_session) (clear_request ''s1-abcdefgh'') \<and>
   always_cleared (constant_registry cleared_session) ''s1-abcdefgh'' \<and>
   (\<exists>st1 st2 tr1 tr2.
      killSession (constant_registry cleared_session) example_session (start 0)
        = Some (Inr (), st1) \<and>
      killSession (constant_registry cleared_session) example_session st1
        = Some (Inr (), st2) \<and>
      exchanges st1 = tr1 \<and> exchanges st2 = tr1 @ tr2 \<and>
      map fst tr1 = [terminate_request ''s1-abcdefgh'' (Some 4242),
                     poll_request ''s1-abcdefgh'', clear_request ''s1-abcdefgh''] \<and>
      map fst tr2 = [terminate_request ''s1-abcdefgh'' (Some 4242),
                     poll_request ''s1-abcdefgh'', clear_request ''s1-abcdefgh''])"
proof -
  have a: "truthy_number (pid example_session)"
    by (simp add: example_session_def)
  have k: "accepts (constant_registry cleared_session)
             (terminate_request (claudeSessionId example_session) (pid example_session))"
    by (simp add: accepts_def constant_registry_def terminate_request_def)
  have c: "accepts (constant_registry cleared_session)
             (clear_request (claudeSessionId example_session))"
    by (simp add: accepts_def constant_registry_def clear_request_def)
  have p: "always_cleared (constant_registry cleared_session) (claudeSessionId example_session)"
    by (simp add: always_cleared_def constant_registry_def poll_request_def done_poll_def
          pid_cleared_def cleared_session_def)
  from reconciling_twice_succeeds_twice [OF a k c p, of "start 0", THEN conjunct2]
  have "\<exists>st1 st2 tr1 tr2.
      killSession (constant_registry cleared_session) example_session (start 0)
        = Some (Inr (), st1) \<and>
      killSession (constant_registry cleared_session) example_session st1
        = Some (Inr (), st2) \<and>
      exchanges st1 = tr1 \<and> exchanges st2 = tr1 @ tr2 \<and>
      map fst tr1 = [terminate_request ''s1-abcdefgh'' (Some 4242),
                     poll_request ''s1-abcdefgh'', clear_request ''s1-abcdefgh''] \<and>
      map fst tr2 = [terminate_request ''s1-abcdefgh'' (Some 4242),
                     poll_request ''s1-abcdefgh'', clear_request ''s1-abcdefgh'']"
    by (simp add: one_poll_requests_def example_session_def start_def)
  with a k c p show ?thesis
    by (simp add: example_session_def)
qed

subsection \<open>Resume and kill use the same procedure\<close>

text \<open>
  Claim C7. For every session with a present process id and a link present at the start
  (both in the sense of the code's own tests, \<open>!session.pid\<close> and
  \<open>!!session.happySessionId\<close>), the reconciliation of the resume action,
  \<open>killSessionSilently\<close>, and that of the kill action, \<open>killSession\<close>, are the same
  function of the registry and the state: they issue the same requests in the same
  order (same terminate request, same poll loop, same clear request), leave the same
  state and return the same result.
\<close>

theorem resume_and_kill_reconcile_alike:
  assumes "truthy_number (pid session)" "truthy_string (happySessionId session)"
  shows "killSessionSilently env session st = killSession env session st"
  using assms
  by (simp add: killSessionSilently_def killSession_def Let_def
        split: prod.splits sum.splits option.splits)

theorem resume_and_kill_reconcile_alike_witness:
  "truthy_number (pid example_session) \<and> truthy_string (happySessionId example_session) \<and>
   killSessionSilently scripted_registry example_session (start (0, script2))
     = killSession scripted_registry example_session (start (0, script2))"
  using resume_and_kill_reconcile_alike
    [of example_session scripted_registry "start (0, script2)"]
  by (simp add: example_session_def)

subsection \<open>The signal of the terminate request\<close>

lemma clear_phase_no_kill:
  "clear_phase sid tr \<Longrightarrow> x \<in> set tr \<Longrightarrow> \<not> is_kill_request (fst x)"
  by (cases tr; cases "tl tr") (auto simp: clear_request_def)

lemma poll_phase_no_kill:
  "poll_phase sid tr \<Longrightarrow> x \<in> set tr \<Longrightarrow> \<not> is_kill_request (fst x)"
proof (induction tr)
  case Nil
  then show ?case by simp
next
  case (Cons y rest)
  obtain req rep where y: "y = (req, rep)" by (cases y)
  show ?case
  proof (cases "x = y")
    case True
    with Cons.prems y show ?thesis by (simp add: poll_request_def)
  next
    case False
    with Cons.prems have x: "x \<in> set rest" by simp
    from Cons.prems(1) y consider "poll_phase sid rest" | "clear_phase sid rest" | "rest = []"
      by (auto split: if_splits)
    then show ?thesis
      using x Cons.IH clear_phase_no_kill by cases auto
  qed
qed

text \<open>
  Claim C8, as stated, fails: \<open>killSessionSilently\<close> and \<open>killSession\<close> take the
  session and nothing else, so their caller has no option to choose the signal with.
  For the example session the terminate request carries \<open>'term'\<close>; a caller who wants
  \<open>'kill'\<close> cannot have it sent.
\<close>

theorem forceful_signal_is_never_sent:
  "killSessionSilently (constant_registry cleared_session) example_session (start 0)
     = Some (Inr (), after (start 0) 0
         [(POST_kill ''s1-abcdefgh'' (Some (KillOptions (Some Term) (Some 4242))), accepted),
          (poll_request ''s1-abcdefgh'', shows_session cleared_session),
          (clear_request ''s1-abcdefgh'', Inr OtherData)]) \<and>
   killSession (constant_registry cleared_session) example_session (start 0)
     = Some (Inr (), after (start 0) 0
         [(POST_kill ''s1-abcdefgh'' (Some (KillOptions (Some Term) (Some 4242))), accepted),
          (poll_request ''s1-abcdefgh'', shows_session cleared_session),
          (clear_request ''s1-abcdefgh'', Inr OtherData)]) \<and>
   signal (KillOptions (Some Term) (Some 4242)) \<noteq> Some Kill"
  by code_simp

text \<open>
  Claim C8, amended. For every session with a present process id, the first request of
  \<open>killSessionSilently\<close> and of \<open>killSession\<close> goes to the kill endpoint of the session
  with the graceful signal \<open>'term'\<close> and the session's process id as target, and no
  later request of the run goes to a kill endpoint. The choice of signal exists one
  level below: \<open>HappyApiClient.killSession\<close> sends the options it is given as they are.
\<close>

theorem terminate_request_is_always_graceful:
  "(\<forall>y. truthy_number (pid session) \<and>
         (killSessionSilently env session st = Some y \<or> killSession env session st = Some y) \<longrightarrow>
      (\<exists>rep rest.
         exchanges (snd y) = exchanges st
           @ (POST_kill (claudeSessionId session) (Some (KillOptions (Some Term) (pid session))),
              rep) # rest \<and>
         (\<forall>x\<in>set rest. \<not> is_kill_request (fst x)))) \<and>
   (\<exists>rep. exchanges (snd (apiClient_killSession env sid options st))
            = exchanges st @ [(POST_kill sid options, rep)])"
proof (rule conjI; (intro allI impI)?)
  fix y
  assume a: "truthy_number (pid session) \<and>
         (killSessionSilently env session st = Some y \<or> killSession env session st = Some y)"
  then have "\<exists>no_pid. reconcile_run no_pid session st y"
    using killSessionSilently_run killSession_run by blast
  with a obtain tr where tr: "exchanges (snd y) = exchanges st @ tr" "tr \<noteq> []"
    "strict_sequence (claudeSessionId session) (pid session) tr"
    by (auto simp: reconcile_run_def)
  then obtain req rep rest where c: "tr = (req, rep) # rest"
    by (cases tr) auto
  with tr(3) have req: "req = terminate_request (claudeSessionId session) (pid session)"
    and rest: "rest = [] \<or> poll_phase (claudeSessionId session) rest"
    by (auto split: sum.splits)
  from rest have "\<forall>x\<in>set rest. \<not> is_kill_request (fst x)"
    using poll_phase_no_kill by auto
  with tr(1) c req
  show "\<exists>rep rest.
         exchanges (snd y) = exchanges st
           @ (POST_kill (claudeSessionId session) (Some (KillOptions (Some Term) (pid session))),
              rep) # rest \<and>
         (\<forall>x\<in>set rest. \<not> is_kill_request (fst x))"
    by (auto simp: terminate_request_def)
next
  show "\<exists>rep. exchanges (snd (apiClient_killSession env sid options st))
            = exchanges st @ [(POST_kill sid options, rep)]"
    using apiClient_killSession_post
      [of env sid options st "fst (apiClient_killSession env sid options st)"
          "snd (apiClient_killSession env sid options st)"]
    by auto
qed

theorem terminate_request_is_always_graceful_witness:
  "truthy_number (pid example_session) \<and>
   killSession (constant_registry cleared_session) example_session (start 0)
     = Some (Inr (), after (start 0) 0
         [(terminate_request ''s1-abcdefgh'' (Some 4242), accepted),
          (poll_request ''s1-abcdefgh'', shows_session cleared_session),
          (clear_request ''s1-abcdefgh'', Inr OtherData)]) \<and>
   (\<exists>rep rest.
      [(terminate_request ''s1-abcdefgh'' (Some 4242), accepted),
       (poll_request ''s1-abcdefgh'', shows_session cleared_session),
       (clear_request ''s1-abcdefgh'', Inr OtherData)]
      = (POST_kill ''s1-abcdefgh'' (Some (KillOptions (Some Term) (Some 4242))), rep) # rest \<and>
      (\<forall>x\<in>set rest. \<not> is_kill_request (fst x)))"
proof -
  have a: "truthy_number (pid example_session)"
    by (simp add: example_session_def)
  have run: "killSession (constant_registry cleared_session) example_session (start 0)
     = Some (Inr (), after (start 0) 0
         [(terminate_request ''s1-abcdefgh'' (Some 4242), accepted),
          (poll_request ''s1-abcdefgh'', shows_session cleared_session),
          (clear_request ''s1-abcdefgh'', Inr OtherData)])"
    by code_simp
  from a run have "truthy_number (pid example_session) \<and>
     (killSessionSilently (constant_registry cleared_session) example_session (start 0)
        = Some (Inr (), after (start 0) 0
         [(terminate_request ''s1-abcdefgh'' (Some 4242), accepted),
          (poll_request ''s1-abcdefgh'', shows_session cleared_session),
          (clear_request ''s1-abcdefgh'', Inr OtherData)]) \<or>
      killSession (constant_registry cleared_session) example_session (start 0)
        = Some (Inr (), after (start 0) 0
         [(terminate_request ''s1-abcdefgh'' (Some 4242), accepted),
          (poll_request ''s1-abcdefgh'', shows_session cleared_session),
          (clear_request ''s1-abcdefgh'', Inr OtherData)]))"
    by simp
  note terminate_request_is_always_graceful
    [of example_session "constant_registry cleared_session" "start 0" "''s1''" None,
     THEN conjunct1, THEN spec, THEN mp, OF this]
  then have "\<exists>rep rest.
      [(terminate_request ''s1-abcdefgh'' (Some 4242), accepted),
       (poll_request ''s1-abcdefgh'', shows_session cleared_session),
       (clear_request ''s1-abcdefgh'', Inr OtherData)]
      = (POST_kill ''s1-abcdefgh'' (Some (KillOptions (Some Term) (Some 4242))), rep) # rest \<and>
      (\<forall>x\<in>set rest. \<not> is_kill_request (fst x))"
    by (simp add: start_def example_session_def)
  with a run show ?thesis by blast
qed

subsection \<open>What the caller sees of a failure\<close>

lemma step_outcome_rejected: "isl (step_outcome sid (req, Inl e))"
  by (cases req) simp_all

lemma clear_phase_rejected_last:
  "clear_phase sid tr \<Longrightarrow> x \<in> set tr \<Longrightarrow> last tr = x"
  by (cases tr; cases "tl tr") auto

lemma poll_phase_rejected_last:
  "poll_phase sid tr \<Longrightarrow> x \<in> set tr \<Longrightarrow> isl (snd x) \<Longrightarrow> last tr = x"
proof (induction tr)
  case Nil
  then show ?case by simp
next
  case (Cons y rest)
  obtain req rep where y: "y = (req, rep)" by (cases y)
  show ?case
  proof (cases "x = y")
    case True
    with Cons.prems y have "\<not> pending pid_cleared rep" "\<not> done_poll pid_cleared rep"
      by (cases rep; simp add: pending_def done_poll_def)+
    with Cons.prems(1) y have "rest = []" by simp
    with True show ?thesis by simp
  next
    case False
    with Cons.prems have x: "x \<in> set rest" by simp
    then have ne: "rest \<noteq> []" by auto
    from Cons.prems(1) y ne consider "poll_phase sid rest" | "clear_phase sid rest"
      by (auto split: if_splits)
    then have "last rest = x"
      using x Cons.IH Cons.prems(3) clear_phase_rejected_last by cases auto
    with ne show ?thesis by simp
  qed
qed

lemma strict_sequence_rejected_last:
  assumes "strict_sequence sid p tr" "x \<in> set tr" "isl (snd x)"
  shows "last tr = x"
proof (cases tr)
  case Nil
  with assms show ?thesis by simp
next
  case (Cons y rest)
  obtain req rep where y: "y = (req, rep)" by (cases y)
  show ?thesis
  proof (cases rep)
    case (Inl e)
    with assms Cons y show ?thesis by simp
  next
    case (Inr d)
    with assms Cons y have "x \<in> set rest" "poll_phase sid rest" "rest \<noteq> []"
      by auto
    with poll_phase_rejected_last [of sid rest x] assms(3) Cons show ?thesis by simp
  qed
qed

text \<open>
  Claim C9, as stated, fails. When the registry rejects the terminate request with a
  transport error, the caller of \<open>killSession\<close> receives a different error: the API
  client has written the original message to the console and thrown a new \<open>Error\<close>.
  And \<open>resumeSessionInTerminal\<close>, the caller of \<open>killSessionSilently\<close>, catches that
  error, shows a warning and goes on to launch the terminal: its own caller sees no
  failure at all.
\<close>

theorem transport_error_is_replaced:
  "rejected = Inl (Error ''Request failed with status code 500'') \<and>
   killSession scripted_registry example_session (start (0, script4))
     = Some (Inl (Error ''Cannot kill session s1-abcdefgh''),
         (start (1, []))\<lparr>exchanges :=
            [(terminate_request ''s1-abcdefgh'' (Some 4242), rejected)],
          console := [''Failed to kill session: Request failed with status code 500'']\<rparr>) \<and>
   Error ''Cannot kill session s1-abcdefgh'' \<noteq> Error ''Request failed with status code 500'' \<and>
   resumeSessionInTerminal scripted_registry example_session (start (0, script4))
     = Some ((start (1, []))\<lparr>exchanges :=
            [(terminate_request ''s1-abcdefgh'' (Some 4242), rejected)],
          console := [''Failed to kill session: Request failed with status code 500''],
          ui := [InformationMessage ''Moving session s1-abcde from phone to VS Code...'',
                 WarningMessage ''Failed to kill active session: Cannot kill session s1-abcdefgh. Attempting to resume anyway.'',
                 CreateTerminal ''Claude s1-abcde'' (Some ''/home/user''),
                 SendText ''claude --resume s1-abcdefgh'',
                 ShowTerminal,
                 InformationMessage ''Resuming session s1-abcde in terminal'']\<rparr>)"
  by code_simp

text \<open>
  Claim C9, amended. Every failure during the reconciliation is surfaced to the caller of
  \<open>killSessionSilently\<close> and \<open>killSession\<close> as an error, with nothing swallowed,
  retried or recovered from inside them: the result is the \<open>outcome\<close> of the trace,
  which is decided by its last exchange, and a run with a rejected request never
  returns success. The error is not the original one: for a rejected request the API
  client writes the transport error's message to the console and throws a new error
  whose message names only the operation and the session, \<open>Cannot kill session\<close>,
  \<open>Cannot fetch session\<close> or \<open>Cannot detach session ... from Happy\<close>.
\<close>

theorem failures_surface_as_fixed_errors:
  "(\<forall>y. killSessionSilently env session st = Some y \<longrightarrow>
      (\<exists>tr. exchanges (snd y) = exchanges st @ tr \<and>
            fst y = outcome ''Session has no PID to kill'' (claudeSessionId session) tr \<and>
            (\<forall>x\<in>set tr. isl (snd x) \<longrightarrow> isl (fst y)))) \<and>
   (\<forall>y. killSession env session st = Some y \<longrightarrow>
      (\<exists>tr. exchanges (snd y) = exchanges st @ tr \<and>
            fst y = outcome ''Session has no PID'' (claudeSessionId session) tr \<and>
            (\<forall>x\<in>set tr. isl (snd x) \<longrightarrow> isl (fst y)))) \<and>
   (\<forall>e. fst (send env (POST_kill sid options) (world st)) = Inl e \<longrightarrow>
      fst (apiClient_killSession env sid options st) = Inl (Error (''Cannot kill session '' @ sid)) \<and>
      console (snd (apiClient_killSession env sid options st))
        = console st @ [''Failed to kill session: '' @ message e]) \<and>
   (\<forall>e. fst (send env (poll_request sid) (world st)) = Inl e \<longrightarrow>
      fst (getSession env sid st) = Inl (Error (''Cannot fetch session '' @ sid)) \<and>
      console (snd (getSession env sid st))
        = console st @ [''Failed to fetch sessions: '' @ message e,
                        ''Failed to fetch session: Cannot connect to Happy server at ''
                          @ baseUrl env]) \<and>
   (\<forall>e. fst (send env (clear_request sid) (world st)) = Inl e \<longrightarrow>
      fst (clearHappyMetadata env sid st)
        = Inl (Error (''Cannot detach session '' @ sid @ '' from Happy'')) \<and>
      console (snd (clearHappyMetadata env sid st))
        = console st @ [''Failed to clear Happy metadata: '' @ message e])"
proof (intro conjI allI impI)
  fix y
  assume "killSessionSilently env session st = Some y"
  from killSessionSilently_run [OF this] obtain tr where
    tr: "exchanges (snd y) = exchanges st @ tr"
        "strict_sequence (claudeSessionId session) (pid session) tr"
        "fst y = outcome ''Session has no PID to kill'' (claudeSessionId session) tr"
    unfolding reconcile_run_def by blast
  have "isl (fst y)" if "x \<in> set tr" "isl (snd x)" for x
  proof -
    from strict_sequence_rejected_last [OF tr(2) that] that have "last tr = x" "tr \<noteq> []"
      by auto
    with tr(3) that(2) show ?thesis
      by (cases x; cases "snd x") (auto simp: outcome_def step_outcome_rejected)
  qed
  with tr show "\<exists>tr. exchanges (snd y) = exchanges st @ tr \<and>
            fst y = outcome ''Session has no PID to kill'' (claudeSessionId session) tr \<and>
            (\<forall>x\<in>set tr. isl (snd x) \<longrightarrow> isl (fst y))"
    by blast
next
  fix y
  assume "killSession env session st = Some y"
  from killSession_run [OF this] obtain tr where
    tr: "exchanges (snd y) = exchanges st @ tr"
        "strict_sequence (claudeSessionId session) (pid session) tr"
        "fst y = outcome ''Session has no PID'' (claudeSessionId session) tr"
    unfolding reconcile_run_def by blast
  have "isl (fst y)" if "x \<in> set tr" "isl (snd x)" for x
  proof -
    from strict_sequence_rejected_last [OF tr(2) that] that have "last tr = x" "tr \<noteq> []"
      by auto
    with tr(3) that(2) show ?thesis
      by (cases x; cases "snd x") (auto simp: outcome_def step_outcome_rejected)
  qed
  with tr show "\<exists>tr. exchanges (snd y) = exchanges st @ tr \<and>
            fst y = outcome ''Session has no PID'' (claudeSessionId session) tr \<and>
            (\<forall>x\<in>set tr. isl (snd x) \<longrightarrow> isl (fst y))"
    by blast
next
  fix e
  assume "fst (send env (POST_kill sid options) (world st)) = Inl e"
  then show "fst (apiClient_killSession env sid options st)
               = Inl (Error (''Cannot kill session '' @ sid))"
    and "console (snd (apiClient_killSession env sid options st))
        = console st @ [''Failed to kill session: '' @ message e]"
    by (simp_all add: apiClient_killSession_def http_eq console_error_def after_def)
next
  fix e
  assume "fst (send env (poll_request sid) (world st)) = Inl e"
  then show "fst (getSession env sid st) = Inl (Error (''Cannot fetch session '' @ sid))"
    and "console (snd (getSession env sid st))
        = console st @ [''Failed to fetch sessions: '' @ message e,
                        ''Failed to fetch session: Cannot connect to Happy server at ''
                          @ baseUrl env]"
    by (simp_all add: getSession_def listSessions_def http_eq console_error_def after_def
          poll_request_def)
next
  fix e
  assume "fst (send env (clear_request sid) (world st)) = Inl e"
  then show "fst (clearHappyMetadata env sid st)
        = Inl (Error (''Cannot detach session '' @ sid @ '' from Happy''))"
    and "console (snd (clearHappyMetadata env sid st))
        = console st @ [''Failed to clear Happy metadata: '' @ message e]"
    by (simp_all add: clearHappyMetadata_def http_eq console_error_def after_def
          clear_request_def)
qed

theorem failures_surface_as_fixed_errors_witness:
  "killSessionSilently scripted_registry example_session (start (0, script3))
     = Some (Inl (Error ''Cannot detach session s1-abcdefgh from Happy''),
         (start (3, []))\<lparr>exchanges :=
            [(terminate_request ''s1-abcdefgh'' (Some 4242), accepted),
             (poll_request ''s1-abcdefgh'', shows_session cleared_session),
             (clear_request ''s1-abcdefgh'', rejected)],
          console :=
            [''Failed to clear Happy metadata: Request failed with status code 500'']\<rparr>) \<and>
   Inl (Error ''Cannot detach session s1-abcdefgh from Happy'')
     = outcome ''Session has no PID to kill'' ''s1-abcdefgh''
         [(terminate_request ''s1-abcdefgh'' (Some 4242), accepted),
          (poll_request ''s1-abcdefgh'', shows_session cleared_session),
          (clear_request ''s1-abcdefgh'', rejected)] \<and>
   isl (snd (clear_request ''s1-abcdefgh'', rejected)) \<and>
   fst (send scripted_registry (POST_kill ''s1-abcdefgh'' None) (world (start (0, script4))))
     = Inl (Error ''Request failed with status code 500'') \<and>
   fst (apiClient_killSession scripted_registry ''s1-abcdefgh'' None (start (0, script4)))
     = Inl (Error ''Cannot kill session s1-abcdefgh'') \<and>
   console (snd (apiClient_killSession scripted_registry ''s1-abcdefgh'' None
                   (start (0, script4))))
     = [''Failed to kill session: Request failed with status code 500''] \<and>
   fst (send scripted_registry (poll_request ''s1-abcdefgh'') (world (start (0, script4))))
     = Inl (Error ''Request failed with status code 500'') \<and>
   fst (getSession scripted_registry ''s1-abcdefgh'' (start (0, script4)))
     = Inl (Error ''Cannot fetch session s1-abcdefgh'') \<and>
   console (snd (getSession scripted_registry ''s1-abcdefgh'' (start (0, script4))))
     = [''Failed to fetch sessions: Request failed with status code 500'',
        ''Failed to fetch session: Cannot connect to Happy server at http://127.0.0.1:3005''] \<and>
   fst (send scripted_registry (clear_request ''s1-abcdefgh'') (world (start (0, script4))))
     = Inl (Error ''Request failed with status code 500'') \<and>
   fst (clearHappyMetadata scripted_registry ''s1-abcdefgh'' (start (0, script4)))
     = Inl (Error ''Cannot detach session s1-abcdefgh from Happy'') \<and>
   console (snd (clearHappyMetadata scripted_registry ''s1-abcdefgh'' (start (0, script4))))
     = [''Failed to clear Happy metadata: Request failed with status code 500'']"
proof -
  have run: "killSessionSilently scripted_registry example_session (start (0, script3))
     = Some (Inl (Error ''Cannot detach session s1-abcdefgh from Happy''),
         (start (3, []))\<lparr>exchanges :=
            [(terminate_request ''s1-abcdefgh'' (Some 4242), accepted),
             (poll_request ''s1-abcdefgh'', shows_session cleared_session),
             (clear_request ''s1-abcdefgh'', rejected)],
          console :=
            [''Failed to clear Happy metadata: Request failed with status code 500'']\<rparr>)"
    by code_simp
  have rej: "fst (send scripted_registry req (world (start (0, script4))))
               = Inl (Error ''Request failed with status code 500'')" for req
    by (simp add: scripted_registry_def start_def script4_def rejected_def)
  note inst = failures_surface_as_fixed_errors
    [of scripted_registry example_session "start (0, script3)" "''s1-abcdefgh''" None]
  note a = inst [THEN conjunct1, THEN spec, THEN mp, OF run]
  note rest = failures_surface_as_fixed_errors
    [of scripted_registry example_session "start (0, script4)" "''s1-abcdefgh''" None,
     THEN conjunct2, THEN conjunct2]
  note b = rest [THEN conjunct1, THEN spec, THEN mp, OF rej]
  note c = rest [THEN conjunct2, THEN conjunct1, THEN spec, THEN mp, OF rej]
  note d = rest [THEN conjunct2, THEN conjunct2, THEN spec, THEN mp, OF rej]
  from a have "Inl (Error ''Cannot detach session s1-abcdefgh from Happy'')
     = outcome ''Session has no PID to kill'' ''s1-abcdefgh''
         [(terminate_request ''s1-abcdefgh'' (Some 4242), accepted),
          (poll_request ''s1-abcdefgh'', shows_session cleared_session),
          (clear_request ''s1-abcdefgh'', rejected)]"
    by (simp add: start_def example_session_def)
  with run rej b c d show ?thesis
    by (simp add: rejected_def start_def scripted_registry_def)
qed

subsection \<open>The resume action\<close>

lemma resume_skips:
  "\<not> reconciles_first session \<Longrightarrow>
   resumeSessionInTerminal env session st
     = Some (st\<lparr>ui := ui st @ launch_events session\<rparr>)"
  by (auto simp: resumeSessionInTerminal_def reconciles_first_def Let_def window_def
        launch_events_def)

lemma resume_after_reconcile:
  assumes "reconciles_first session"
    and "killSessionSilently env session (window (moving_message session) st) = Some (r, st1)"
  shows "resumeSessionInTerminal env session st
           = Some (st1\<lparr>ui := ui st @ notices session (Some r) @ launch_events session\<rparr>)"
proof -
  from killSessionSilently_run [OF assms(2)]
  have u: "ui st1 = ui st @ [moving_message session]"
    by (auto simp: reconcile_run_def)
  show ?thesis
  proof (cases r)
    case (Inl e)
    with assms u show ?thesis
      by (simp add: resumeSessionInTerminal_def reconciles_first_def Let_def window_def
            launch_events_def moving_message_def warning_message_def)
  next
    case (Inr v)
    with assms u show ?thesis
      by (simp add: resumeSessionInTerminal_def reconciles_first_def Let_def window_def
            launch_events_def moving_message_def terminated_message_def)
  qed
qed

text \<open>
  Claim C10. Every invocation of \<open>resumeSessionInTerminal\<close> that returns has created
  the terminal, sent \<open>claude --resume <sessionId>\<close>, shown the terminal and announced
  the resume, as its last four window calls, whatever went before: nothing when the
  reconciliation was skipped (session not link-attached, not active or without a
  process id), two information messages when it succeeded, an information message and
  a warning when it failed. A failure of \<open>killSessionSilently\<close> is caught: its message
  goes into the warning and the launch follows. The invocation returns whenever the
  clock advances, and its result carries no error.
\<close>

theorem resume_always_launches_terminal:
  "(clock_advances env \<longrightarrow> resumeSessionInTerminal env session st \<noteq> None) \<and>
   (\<forall>st'. resumeSessionInTerminal env session st = Some st' \<longrightarrow>
      (\<exists>r. ui st' = ui st @ notices session r @ launch_events session \<and>
           (r = None \<longleftrightarrow> \<not> reconciles_first session))) \<and>
   (\<forall>e st1. reconciles_first session \<and>
        killSessionSilently env session (window (moving_message session) st) = Some (Inl e, st1)
      \<longrightarrow> resumeSessionInTerminal env session st
            = Some (st1\<lparr>ui := ui st @ [moving_message session, warning_message e]
                               @ launch_events session\<rparr>))"
proof (intro conjI allI impI)
  assume adv: "clock_advances env"
  show "resumeSessionInTerminal env session st \<noteq> None"
  proof (cases "reconciles_first session")
    case False
    then show ?thesis by (simp add: resume_skips)
  next
    case True
    from killSessionSilently_returns [OF adv, of session "window (moving_message session) st"]
    obtain r st1 where
      "killSessionSilently env session (window (moving_message session) st) = Some (r, st1)"
      by auto
    from resume_after_reconcile [OF True this] show ?thesis by simp
  qed
next
  fix st'
  assume a: "resumeSessionInTerminal env session st = Some st'"
  show "\<exists>r. ui st' = ui st @ notices session r @ launch_events session \<and>
           (r = None \<longleftrightarrow> \<not> reconciles_first session)"
  proof (cases "reconciles_first session")
    case False
    with a have "ui st' = ui st @ launch_events session"
      by (auto simp: resume_skips)
    with False show ?thesis
      by (intro exI [of _ None]) simp
  next
    case True
    have "killSessionSilently env session (window (moving_message session) st) \<noteq> None"
      using a True
      by (auto simp: resumeSessionInTerminal_def reconciles_first_def Let_def
            moving_message_def split: option.splits)
    then obtain r st1 where
      k: "killSessionSilently env session (window (moving_message session) st) = Some (r, st1)"
      by auto
    from resume_after_reconcile [OF True k] a True show ?thesis
      by (intro exI [of _ "Some r"]) auto
  qed
next
  fix e st1
  assume "reconciles_first session \<and>
        killSessionSilently env session (window (moving_message session) st) = Some (Inl e, st1)"
  then show "resumeSessionInTerminal env session st
            = Some (st1\<lparr>ui := ui st @ [moving_message session, warning_message e]
                               @ launch_events session\<rparr>)"
    using resume_after_reconcile [of session env st "Inl e" st1] by simp
qed


theorem resume_always_launches_terminal_witness:
  "clock_advances scripted_registry \<and>
   resumeSessionInTerminal scripted_registry example_session (start (0, script4)) \<noteq> None \<and>
   reconciles_first example_session \<and>
   killSessionSilently scripted_registry example_session
       (window (moving_message example_session) (start (0, script4)))
     = Some (Inl (Error ''Cannot kill session s1-abcdefgh''),
         (start (1, []))\<lparr>exchanges :=
            [(terminate_request ''s1-abcdefgh'' (Some 4242), rejected)],
          console := [''Failed to kill session: Request failed with status code 500''],
          ui := [moving_message example_session]\<rparr>) \<and>
   resumeSessionInTerminal scripted_registry example_session (start (0, script4))
     = Some ((start (1, []))\<lparr>exchanges :=
            [(terminate_request ''s1-abcdefgh'' (Some 4242), rejected)],
          console := [''Failed to kill session: Request failed with status code 500''],
          ui := [moving_message example_session,
                 warning_message (Error ''Cannot kill session s1-abcdefgh'')]
                @ launch_events example_session\<rparr>) \<and>
   (\<exists>r. [moving_message example_session,
          warning_message (Error ''Cannot kill session s1-abcdefgh'')]
         @ launch_events example_session
         = notices example_session r @ launch_events example_session \<and>
        (r = None \<longleftrightarrow> \<not> reconciles_first example_session))"
proof -
  have g: "reconciles_first example_session"
    by (simp add: reconciles_first_def example_session_def)
  have k: "killSessionSilently scripted_registry example_session
       (window (moving_message example_session) (start (0, script4)))
     = Some (Inl (Error ''Cannot kill session s1-abcdefgh''),
         (start (1, []))\<lparr>exchanges :=
            [(terminate_request ''s1-abcdefgh'' (Some 4242), rejected)],
          console := [''Failed to kill session: Request failed with status code 500''],
          ui := [moving_message example_session]\<rparr>)"
    by code_simp
  note inst = resume_always_launches_terminal
    [of scripted_registry example_session "start (0, script4)"]
  note returns = inst [THEN conjunct1, THEN mp, OF scripted_clock]
  note caught = inst [THEN conjunct2, THEN conjunct2, THEN spec, THEN spec, THEN mp,
    OF conjI, OF g k]
  then have run: "resumeSessionInTerminal scripted_registry example_session (start (0, script4))
     = Some ((start (1, []))\<lparr>exchanges :=
            [(terminate_request ''s1-abcdefgh'' (Some 4242), rejected)],
          console := [''Failed to kill session: Request failed with status code 500''],
          ui := [moving_message example_session,
                 warning_message (Error ''Cannot kill session s1-abcdefgh'')]
                @ launch_events example_session\<rparr>)"
    by (simp add: start_def)
  note launched = inst [THEN conjunct2, THEN conjunct1, THEN spec, THEN mp, OF run]
  then have "\<exists>r. [moving_message example_session,
          warning_message (Error ''Cannot kill session s1-abcdefgh'')]
         @ launch_events example_session
         = notices example_session r @ launch_events example_session \<and>
        (r = None \<longleftrightarrow> \<not> reconciles_first example_session)"
    by (simp add: start_def)
  with scripted_clock returns g k run show ?thesis by blast
qed

end
